theory Spec2Isabelle
  imports Complex_Main
begin

section \<open>Machine integers, faults and floats\<close>

text \<open>
  The engine is C++. Container sizes (\<open>size_t\<close>) are natural numbers; \<open>int\<close> and
  \<open>int32_t\<close> values are mathematical integers on which every arithmetic result is
  wrapped to 32 bits by \<open>i32\<close>, and \<open>static_cast<int>\<close> of a size is \<open>i32\<close> of it.
  A read or write outside a vector, and a vector constructed with a negative length, are
  results of their own: a function that can run into one returns \<open>cxx_fault + 'a\<close>.
\<close>

definition i32 :: "int \<Rightarrow> int" where
  "i32 x = (x + 2147483648) mod 4294967296 - 2147483648"

datatype cxx_fault =
    OutOfBounds      \<comment> \<open>index outside the vector: undefined behaviour in C++\<close>
  | LengthError      \<comment> \<open>\<open>std::vector\<close> constructed with a negative (huge unsigned) size\<close>
  | BadAlloc         \<comment> \<open>\<open>posix_memalign\<close> refused the request\<close>
  | InvalidPlan      \<comment> \<open>FFTW has no plan for a transform of size below one\<close>
  | SignedOverflow   \<comment> \<open>\<open>-num\<close> at \<open>INT64_MIN\<close>: undefined behaviour\<close>

text \<open>
  A \<open>float\<close> is one of the IEEE-754 values; a finite one is the rational it denotes.
  Comparisons are exact and are defined here; arithmetic rounds, and is a parameter of the
  functions that use it.
\<close>

datatype float32 = Finite rat | PosInf | NegInf | NaN

fun float_le :: "float32 \<Rightarrow> float32 \<Rightarrow> bool" where
  "float_le NaN _ = False"
| "float_le _ NaN = False"
| "float_le NegInf _ = True"
| "float_le _ PosInf = True"
| "float_le (Finite a) (Finite b) = (a \<le> b)"
| "float_le (Finite a) NegInf = False"
| "float_le PosInf (Finite b) = False"
| "float_le PosInf NegInf = False"

fun float_gt :: "float32 \<Rightarrow> float32 \<Rightarrow> bool" where
  "float_gt NaN _ = False"
| "float_gt _ NaN = False"
| "float_gt PosInf PosInf = False"
| "float_gt PosInf _ = True"
| "float_gt _ PosInf = False"
| "float_gt NegInf _ = False"
| "float_gt (Finite a) NegInf = True"
| "float_gt (Finite a) (Finite b) = (a > b)"

lemma i32_id: "- 2147483648 \<le> x \<Longrightarrow> x < 2147483648 \<Longrightarrow> i32 x = x"
  by (simp add: i32_def)

section \<open>Blank insertion (MatchaBackend::addBlankTokens)\<close>

text \<open>
  \<open>result\<close> is allocated with \<open>tokens.size() * 2 + 1\<close> copies of \<open>pad_id_\<close>; the loop
  writes each token at the \<open>int32_t\<close> index \<open>i\<close>, which starts at 1 and advances by 2.
\<close>

fun blank_loop :: "int list \<Rightarrow> int \<Rightarrow> int list \<Rightarrow> cxx_fault + int list" where
  "blank_loop result i [] = Inr result"
| "blank_loop result i (token # rest) =
     (if 0 \<le> i \<and> i < int (length result)
      then blank_loop (result[nat i := token]) (i32 (i + 2)) rest
      else Inl OutOfBounds)"

definition addBlankTokens :: "int \<Rightarrow> int list \<Rightarrow> cxx_fault + int list" where
  "addBlankTokens pad_id tokens =
     blank_loop (replicate (length tokens * 2 + 1) pad_id) 1 tokens"

lemma blank_loop_inv:
  "2 * (j + length rest) + 1 \<le> length result \<Longrightarrow> length result < 2147483648 \<Longrightarrow>
   \<exists>r. blank_loop result (int (2 * j + 1)) rest = Inr r \<and> length r = length result \<and>
     (\<forall>p < length result. r ! p =
        (if odd p \<and> j \<le> p div 2 \<and> p div 2 < j + length rest
         then rest ! (p div 2 - j) else result ! p))"
proof (induction rest arbitrary: result j)
  case Nil
  then show ?case by simp
next
  case (Cons t rest)
  let ?res = "result[2 * j + 1 := t]"
  have a: "2 * (Suc j + length rest) + 1 \<le> length ?res" using Cons.prems by simp
  have b: "length ?res < 2147483648" using Cons.prems by simp
  from Cons.IH[OF a b] obtain r where
    r: "blank_loop ?res (int (2 * Suc j + 1)) rest = Inr r" "length r = length ?res"
    "\<forall>p < length ?res. r ! p =
        (if odd p \<and> Suc j \<le> p div 2 \<and> p div 2 < Suc j + length rest
         then rest ! (p div 2 - Suc j) else ?res ! p)"
    by blast
  have i: "i32 (int (2 * j + 1) + 2) = int (2 * Suc j + 1)"
    using Cons.prems by (intro trans[OF i32_id]) auto
  have step: "blank_loop result (int (2 * j + 1)) (t # rest) = Inr r"
    using Cons.prems r(1) i by (simp add: nat_add_distrib nat_mult_distrib)
  have "\<forall>p < length result. r ! p =
        (if odd p \<and> j \<le> p div 2 \<and> p div 2 < j + length (t # rest)
         then (t # rest) ! (p div 2 - j) else result ! p)"
  proof (intro allI impI)
    fix p assume p: "p < length result"
    show "r ! p = (if odd p \<and> j \<le> p div 2 \<and> p div 2 < j + length (t # rest)
                   then (t # rest) ! (p div 2 - j) else result ! p)"
    proof (cases "p = 2 * j + 1")
      case True
      then show ?thesis using r(3) p by simp
    next
      case False
      then have "odd p \<Longrightarrow> p div 2 \<noteq> j" by (metis odd_two_times_div_two_succ)
      then show ?thesis using r(3) p False
        by (auto simp: nth_Cons' nth_list_update Suc_le_eq le_less)
    qed
  qed
  then show ?case using step r(2) by simp
qed

text \<open>
  C4. For a token list of fewer than \<open>2^30\<close> elements (so that the \<open>int32_t\<close> index
  stays in range), \<open>addBlankTokens\<close> returns a sequence of length \<open>2 * len + 1\<close> whose
  even positions hold \<open>pad_id\<close> and whose position \<open>2k+1\<close> holds token \<open>k\<close>.
\<close>

theorem addBlankTokens_layout:
  assumes "length ts < 1073741824"
  shows "\<exists>r. addBlankTokens pad_id ts = Inr r \<and> length r = 2 * length ts + 1 \<and>
           (\<forall>k. 2 * k < length r \<longrightarrow> r ! (2 * k) = pad_id) \<and>
           (\<forall>k < length ts. r ! (2 * k + 1) = ts ! k)"
proof -
  let ?res = "replicate (length ts * 2 + 1) pad_id"
  have a: "2 * (0 + length ts) + 1 \<le> length ?res" by simp
  have b: "length ?res < 2147483648" using assms by simp
  from blank_loop_inv[OF a b] obtain r where
    r: "blank_loop ?res (int (2 * 0 + 1)) ts = Inr r" "length r = length ?res"
    "\<forall>p < length ?res. r ! p =
        (if odd p \<and> 0 \<le> p div 2 \<and> p div 2 < 0 + length ts
         then ts ! (p div 2 - 0) else ?res ! p)"
    by blast
  have "addBlankTokens pad_id ts = Inr r" using r(1) by (simp add: addBlankTokens_def)
  moreover have "length r = 2 * length ts + 1" using r(2) by simp
  moreover have "\<forall>k. 2 * k < length r \<longrightarrow> r ! (2 * k) = pad_id"
  proof (intro allI impI)
    fix k assume k: "2 * k < length r"
    then have "r ! (2 * k) = ?res ! (2 * k)" using r(2) r(3) by auto
    also have "\<dots> = pad_id" using k r(2) by (intro nth_replicate) simp
    finally show "r ! (2 * k) = pad_id" .
  qed
  moreover have "\<forall>k < length ts. r ! (2 * k + 1) = ts ! k"
  proof (intro allI impI)
    fix k assume k: "k < length ts"
    then have "2 * k + 1 < length ?res" by simp
    with r(3) have "r ! (2 * k + 1) =
        (if odd (2 * k + 1) \<and> 0 \<le> (2 * k + 1) div 2 \<and> (2 * k + 1) div 2 < 0 + length ts
         then ts ! ((2 * k + 1) div 2 - 0) else ?res ! (2 * k + 1))" by blast
    then show "r ! (2 * k + 1) = ts ! k" using k by simp
  qed
  ultimately show ?thesis by blast
qed

theorem addBlankTokens_layout_witness:
  "length [5, 6, 7 :: int] < 1073741824 \<and> addBlankTokens 0 [5, 6, 7] = Inr [0, 5, 0, 6, 0, 7, 0]"
proof -
  have h: "length [5, 6, 7 :: int] < 1073741824" by simp
  from addBlankTokens_layout[OF h, of 0] obtain r where
    r: "addBlankTokens 0 [5, 6, 7] = Inr r" by blast
  have "addBlankTokens 0 [5, 6, 7] = Inr [0, 5, 0, 6, 0, 7, 0]"
    by code_simp
  with h r show ?thesis by simp
qed

section \<open>Roman numerals (number_utils)\<close>

text \<open>
  \<open>std::toupper\<close> in the C locale: the letters \<open>a\<close> to \<open>z\<close> move to upper case and every
  other byte is returned as it is. \<open>values[c]\<close> on the \<open>unordered_map\<close> yields 0 for a
  character that is not a key. The accumulator \<open>result\<close> is an \<open>int\<close>.
\<close>

definition toupper :: "char \<Rightarrow> char" where
  "toupper c = (let n = (of_char c :: nat) in
                if 97 \<le> n \<and> n \<le> 122 then char_of (n - 32) else c)"

definition isRomanNumeralChar :: "char \<Rightarrow> bool" where
  "isRomanNumeralChar c0 = (let c = toupper c0 in
     c = CHR ''I'' \<or> c = CHR ''V'' \<or> c = CHR ''X'' \<or> c = CHR ''L'' \<or>
     c = CHR ''C'' \<or> c = CHR ''D'' \<or> c = CHR ''M'')"

fun all_roman_chars :: "string \<Rightarrow> bool" where
  "all_roman_chars [] = True"
| "all_roman_chars (c # cs) = (if \<not> isRomanNumeralChar c then False else all_roman_chars cs)"

definition isRomanNumeral :: "string \<Rightarrow> bool" where
  "isRomanNumeral str = (if length str < 2 then False else all_roman_chars str)"

definition roman_values :: "char \<Rightarrow> int" where
  "roman_values c =
     (if c = CHR ''I'' then 1 else if c = CHR ''V'' then 5 else if c = CHR ''X'' then 10
      else if c = CHR ''L'' then 50 else if c = CHR ''C'' then 100
      else if c = CHR ''D'' then 500 else if c = CHR ''M'' then 1000 else 0)"

fun roman_loop :: "int \<Rightarrow> string \<Rightarrow> int" where
  "roman_loop result [] = result"
| "roman_loop result [c] = i32 (result + roman_values (toupper c))"
| "roman_loop result (c # nxt # rest) =
     (let v = roman_values (toupper c); next_value = roman_values (toupper nxt)
      in roman_loop (if v < next_value then i32 (result - v) else i32 (result + v))
           (nxt # rest))"

definition romanToInt :: "string \<Rightarrow> int" where
  "romanToInt roman = roman_loop 0 roman"

text \<open>
  C9. \<open>romanToInt\<close> reads IV as 4, IX as 9 and MCMLXXXIV as 1984, and \<open>isRomanNumeral\<close>
  rejects every string shorter than two characters.
\<close>

theorem romanToInt_examples:
  "romanToInt ''IV'' = 4 \<and> romanToInt ''IX'' = 9 \<and> romanToInt ''MCMLXXXIV'' = 1984 \<and>
   (length s < 2 \<longrightarrow> \<not> isRomanNumeral s)"
proof -
  have "romanToInt ''IV'' = 4" by code_simp
  moreover have "romanToInt ''IX'' = 9" by code_simp
  moreover have "romanToInt ''MCMLXXXIV'' = 1984" by code_simp
  moreover have "length s < 2 \<longrightarrow> \<not> isRomanNumeral s" by (simp add: isRomanNumeral_def)
  ultimately show ?thesis by blast
qed

theorem romanToInt_examples_witness:
  "length ''I'' < 2 \<and> \<not> isRomanNumeral ''I''"
  using romanToInt_examples[of "''I''"] by simp

section \<open>Kokoro voice manager\<close>

text \<open>
  \<open>loadVoice\<close> is modelled on what the file operations deliver: \<open>None\<close> when the file
  cannot be opened, otherwise the size \<open>tellg\<close> reports in bytes, the float held by bytes
  \<open>4i\<close> to \<open>4i+3\<close> of the file, and the number of bytes \<open>file.read\<close> extracts. The
  stream is good after the read when all \<open>file_size\<close> bytes were extracted. The buffer
  has \<open>file_size / sizeof(float)\<close> floats and the read asks for \<open>file_size\<close> bytes, so a
  file whose size is not a multiple of four is written beyond the end of the buffer.
\<close>

record KokoroVoiceManager =
  style_data :: "float32 list"
  num_rows :: int

definition STYLE_DIM :: nat where
  "STYLE_DIM = 256"

definition new_KokoroVoiceManager :: KokoroVoiceManager where
  "new_KokoroVoiceManager = \<lparr>style_data = [], num_rows = 0\<rparr>"

record voice_file =
  vf_size :: nat
  vf_float_at :: "nat \<Rightarrow> float32"
  vf_bytes_read :: nat

definition loadVoice ::
  "KokoroVoiceManager \<Rightarrow> voice_file option \<Rightarrow> cxx_fault + (bool \<times> KokoroVoiceManager)" where
  "loadVoice vm vf =
     (case vf of
        None \<Rightarrow> Inr (False, vm)
      | Some f \<Rightarrow>
          (let file_size = vf_size f;
               num_floats = file_size div 4;
               extracted = min (vf_bytes_read f) file_size
           in if num_floats = 0 \<or> num_floats mod STYLE_DIM \<noteq> 0 then Inr (False, vm)
              else if num_floats * 4 < extracted then Inl OutOfBounds
              else if extracted \<noteq> file_size then Inr (False, vm\<lparr>style_data := []\<rparr>)
              else Inr (True, vm\<lparr>style_data := map (vf_float_at f) [0..<num_floats],
                                    num_rows := i32 (int (num_floats div STYLE_DIM))\<rparr>)))"

definition getStyleVector :: "KokoroVoiceManager \<Rightarrow> int \<Rightarrow> cxx_fault + float32 list" where
  "getStyleVector vm token_len =
     (if style_data vm = [] then Inr (replicate STYLE_DIM (Finite 0))
      else
        (let row = min token_len (i32 (num_rows vm - 1));
             row = max row 0;
             offset = nat row * STYLE_DIM
         in if offset + STYLE_DIM \<le> length (style_data vm)
            then Inr (take STYLE_DIM (drop offset (style_data vm)))
            else Inl OutOfBounds))"

inductive reachable :: "KokoroVoiceManager \<Rightarrow> bool" where
  fresh: "reachable new_KokoroVoiceManager"
| loaded: "reachable vm \<Longrightarrow> loadVoice vm vf = Inr (ok, vm') \<Longrightarrow> reachable vm'"

definition style_row :: "KokoroVoiceManager \<Rightarrow> nat \<Rightarrow> float32 list" where
  "style_row vm k = take STYLE_DIM (drop (k * STYLE_DIM) (style_data vm))"

lemma i32_le: "0 \<le> x \<Longrightarrow> i32 x \<le> x"
proof -
  assume "0 \<le> x"
  have "(x + 2147483648) mod 4294967296 \<le> x + 2147483648"
    using \<open>0 \<le> x\<close> by (intro zmod_le_nonneg_dividend) simp
  then show ?thesis by (simp add: i32_def)
qed

lemma i32_i32_minus: "i32 (i32 a - 1) = i32 (a - 1)"
proof -
  have e: "i32 a - 1 + 2147483648 = (a + 2147483648) mod 4294967296 - 1"
    by (simp add: i32_def)
  have f: "a + 2147483648 - 1 = a - 1 + 2147483648" by simp
  have "i32 (i32 a - 1) = (i32 a - 1 + 2147483648) mod 4294967296 - 2147483648"
    by (rule i32_def)
  also have "\<dots> = ((a + 2147483648) mod 4294967296 - 1) mod 4294967296 - 2147483648"
    by (simp only: e)
  also have "\<dots> = (a + 2147483648 - 1) mod 4294967296 - 2147483648"
    by (simp only: mod_diff_left_eq)
  also have "\<dots> = (a - 1 + 2147483648) mod 4294967296 - 2147483648"
    by (simp only: f)
  also have "\<dots> = i32 (a - 1)" by (simp only: i32_def)
  finally show ?thesis .
qed

definition vm_inv :: "KokoroVoiceManager \<Rightarrow> bool" where
  "vm_inv vm = (style_data vm = [] \<or>
     (\<exists>N. 1 \<le> N \<and> length (style_data vm) = N * STYLE_DIM \<and> num_rows vm = i32 (int N)))"

lemma reachable_inv: "reachable vm \<Longrightarrow> vm_inv vm"
proof (induction rule: reachable.induct)
  case fresh
  then show ?case by (simp add: vm_inv_def new_KokoroVoiceManager_def)
next
  case (loaded vm vf ok vm')
  show ?case
  proof (cases vf)
    case None
    then show ?thesis using loaded by (simp add: loadVoice_def)
  next
    case (Some f)
    let ?n = "vf_size f div 4"
    show ?thesis
    proof (cases "?n = 0 \<or> ?n mod STYLE_DIM \<noteq> 0")
      case True
      then show ?thesis using loaded Some by (auto simp: loadVoice_def Let_def)
    next
      case False
      have "1 \<le> ?n div STYLE_DIM"
        using False
        by (auto simp: STYLE_DIM_def Suc_le_eq div_greater_zero_iff mod_eq_0_iff_dvd
            dest: dvd_imp_le)
      moreover have "?n = ?n div STYLE_DIM * STYLE_DIM" using False by (simp add: mod_0_imp_dvd)
      ultimately have full:
        "vm_inv (vm\<lparr>style_data := map (vf_float_at f) [0..<?n],
                     num_rows := i32 (int (?n div STYLE_DIM))\<rparr>)"
        unfolding vm_inv_def by (intro disjI2 exI[of _ "?n div STYLE_DIM"]) simp
      have cleared: "vm_inv (vm\<lparr>style_data := []\<rparr>)" by (simp add: vm_inv_def)
      from loaded(2) Some False
      have "vm' = vm\<lparr>style_data := []\<rparr> \<or>
            vm' = vm\<lparr>style_data := map (vf_float_at f) [0..<?n],
                        num_rows := i32 (int (?n div STYLE_DIM))\<rparr>"
        by (auto simp: loadVoice_def Let_def split: if_splits)
      then show ?thesis using full cleared by blast
    qed
  qed
qed

lemma clamp_row_bound:
  assumes "1 \<le> N"
  shows "nat (max (min t (i32 (i32 (int N) - 1))) 0) \<le> N - 1"
proof -
  have "i32 (i32 (int N) - 1) = i32 (int N - 1)" by (rule i32_i32_minus)
  also have "\<dots> \<le> int N - 1" using assms by (intro i32_le) simp
  finally have "max (min t (i32 (i32 (int N) - 1))) 0 \<le> int N - 1" using assms by simp
  then show ?thesis using assms by simp
qed

lemma clamp_row_small:
  assumes "1 \<le> N" "N < 2147483648"
  shows "max (min t (i32 (i32 (int N) - 1))) 0 = min (max t 0) (int N - 1)"
proof -
  have "i32 (i32 (int N) - 1) = i32 (int N - 1)" by (rule i32_i32_minus)
  also have "\<dots> = int N - 1" using assms by (intro i32_id) simp_all
  finally show ?thesis using assms by simp
qed

text \<open>
  C10. In every state the voice manager can reach from its constructor by calls of
  \<open>loadVoice\<close>, \<open>getStyleVector\<close> returns, for every \<open>token_len\<close>, a vector of 256
  floats read inside \<open>style_data\<close>: the zero vector when nothing is loaded, otherwise a
  row \<open>k < N\<close> of the \<open>(N, 256)\<close> matrix, and \<open>k = min (max token_len 0) (N - 1)\<close> when
  the row count fits the \<open>int\<close> field \<open>num_rows_\<close>.
\<close>

theorem getStyleVector_total:
  assumes "reachable vm"
  shows "\<exists>v. getStyleVector vm token_len = Inr v \<and> length v = 256 \<and>
           (style_data vm = [] \<longrightarrow> v = replicate 256 (Finite 0)) \<and>
           (style_data vm \<noteq> [] \<longrightarrow>
              (\<exists>N. 1 \<le> N \<and> length (style_data vm) = N * 256 \<and>
                 (\<exists>k < N. v = style_row vm k \<and>
                    (N < 2147483648 \<longrightarrow> int k = min (max token_len 0) (int N - 1)))))"
proof (cases "style_data vm = []")
  case True
  then show ?thesis by (simp add: getStyleVector_def STYLE_DIM_def)
next
  case False
  with reachable_inv[OF assms] obtain N where
    N: "1 \<le> N" "length (style_data vm) = N * STYLE_DIM" "num_rows vm = i32 (int N)"
    unfolding vm_inv_def by blast
  let ?row = "max (min token_len (i32 (num_rows vm - 1))) 0"
  let ?k = "nat ?row"
  have kb: "?k \<le> N - 1" using clamp_row_bound[OF N(1), of token_len] N(3) by simp
  then have "?k + 1 \<le> N" using N(1) by simp
  then have "(?k + 1) * STYLE_DIM \<le> N * STYLE_DIM" by (rule mult_le_mono1)
  then have "?k * STYLE_DIM + STYLE_DIM \<le> N * STYLE_DIM" by (simp add: algebra_simps)
  then have inb: "?k * STYLE_DIM + STYLE_DIM \<le> length (style_data vm)" using N(2) by simp
  have g: "getStyleVector vm token_len = Inr (style_row vm ?k)"
    using False inb by (simp add: getStyleVector_def style_row_def Let_def)
  have len: "length (style_row vm ?k) = 256"
    using inb by (simp add: style_row_def STYLE_DIM_def)
  have small: "N < 2147483648 \<longrightarrow> int ?k = min (max token_len 0) (int N - 1)"
    using clamp_row_small[OF N(1), of token_len] N(3) N(1) by auto
  have "?k < N" using kb N(1) by simp
  then show ?thesis using g len small N False unfolding STYLE_DIM_def by auto
qed

definition one_row_file :: voice_file where
  "one_row_file = \<lparr>vf_size = 1024, vf_float_at = (\<lambda>i. Finite 1), vf_bytes_read = 1024\<rparr>"

definition one_row_voice :: KokoroVoiceManager where
  "one_row_voice = \<lparr>style_data = replicate 256 (Finite 1), num_rows = 1\<rparr>"

lemma one_row_loaded:
  "loadVoice new_KokoroVoiceManager (Some one_row_file) = Inr (True, one_row_voice)"
  by (simp add: loadVoice_def one_row_file_def one_row_voice_def new_KokoroVoiceManager_def
      STYLE_DIM_def i32_def map_replicate_const)

text \<open>A file of 1025 bytes gets a buffer of 256 floats and a read of 1025 bytes.\<close>

lemma loadVoice_ragged_file:
  "loadVoice new_KokoroVoiceManager (Some (one_row_file\<lparr>vf_size := 1025, vf_bytes_read := 1025\<rparr>))
     = Inl OutOfBounds"
  by (simp add: loadVoice_def one_row_file_def STYLE_DIM_def)

theorem getStyleVector_total_witness:
  "reachable one_row_voice \<and> getStyleVector one_row_voice 7 = Inr (replicate 256 (Finite 1))"
proof -
  have h: "reachable one_row_voice"
    by (rule reachable.loaded[OF reachable.fresh one_row_loaded])
  from getStyleVector_total[OF h, of 7] obtain v where
    v: "getStyleVector one_row_voice 7 = Inr v" by blast
  have "getStyleVector one_row_voice 7 = Inr (replicate 256 (Finite 1))" by code_simp
  with h v show ?thesis by simp
qed

section \<open>Result types (tts_types)\<close>

datatype BackendType =
  MATCHA_ZH | MATCHA_EN | MATCHA_ZH_EN | COSYVOICE | VITS | PIPER | KOKORO | CUSTOM

datatype ErrorCode =
    OK | INVALID_CONFIG | MODEL_NOT_FOUND | UNSUPPORTED_FORMAT | UNSUPPORTED_LANGUAGE
  | INVALID_TEXT | NOT_INITIALIZED | ALREADY_STARTED | NOT_STARTED | SYNTHESIS_FAILED
  | TIMEOUT | TEXT_TOO_LONG | NETWORK_ERROR | CONNECTION_FAILED | AUTH_FAILED
  | INTERNAL_ERROR | OUT_OF_MEMORY | FILE_WRITE_ERROR

record ErrorInfo =
  code :: ErrorCode
  message :: string
  detail :: string

definition isOk :: "ErrorInfo \<Rightarrow> bool" where
  "isOk e = (code e = OK)"

definition ErrorInfo_ok :: ErrorInfo where
  "ErrorInfo_ok = \<lparr>code = OK, message = [], detail = []\<rparr>"

definition ErrorInfo_error :: "ErrorCode \<Rightarrow> string \<Rightarrow> ErrorInfo" where
  "ErrorInfo_error c msg = \<lparr>code = c, message = msg, detail = []\<rparr>"

record AudioChunk =
  samples :: "float32 list"
  sample_rate :: int
  channels :: int
  is_final :: bool
  sentence_index :: int
  timestamp_ms :: int

text \<open>
  \<open>samples.size() * 1000 / sample_rate\<close> is computed in \<open>size_t\<close> (64 bits, the positive
  \<open>sample_rate\<close> converted) and then cast to \<open>int\<close>.
\<close>

definition getDurationMs :: "AudioChunk \<Rightarrow> int" where
  "getDurationMs c =
     (if samples c = [] \<or> sample_rate c \<le> 0 then 0
      else i32 (int ((length (samples c) * 1000) mod 18446744073709551616
                     div nat (sample_rate c))))"

definition fromFloat :: "float32 list \<Rightarrow> int \<Rightarrow> bool \<Rightarrow> AudioChunk" where
  "fromFloat data rate final =
     \<lparr>samples = data, sample_rate = rate, channels = 1, is_final = final,
      sentence_index = 0, timestamp_ms = - 1\<rparr>"

record SentenceInfo =
  sentence_text :: string
  begin_time_ms :: int
  end_time_ms :: int
  sentence_is_final :: bool

record SynthesisResult =
  request_id :: string
  audio :: AudioChunk
  sentences :: "SentenceInfo list"
  audio_duration_ms :: int
  processing_time_ms :: int
  rtf :: float32
  success :: bool
  error_info :: ErrorInfo

text \<open>
  A default-constructed \<open>SynthesisResult\<close>. The members without an initializer
  (\<open>sample_rate\<close>, \<open>is_final\<close>, \<open>sentence_index\<close>, \<open>timestamp_ms\<close>, \<open>error.code\<close>) are
  indeterminate in C++ and are parameters here.
\<close>

definition new_SynthesisResult :: "AudioChunk \<Rightarrow> ErrorInfo \<Rightarrow> SynthesisResult" where
  "new_SynthesisResult indeterminate_chunk indeterminate_error =
     \<lparr>request_id = [],
      audio = indeterminate_chunk\<lparr>samples := [], channels := 1\<rparr>,
      sentences = [], audio_duration_ms = 0, processing_time_ms = 0, rtf = Finite 0,
      success = False,
      error_info = indeterminate_error\<lparr>message := [], detail := []\<rparr>\<rparr>"

text \<open>
  Float arithmetic rounds to binary32; the operations are parameters: \<open>of_int64\<close> is
  \<open>static_cast<float>\<close> of an \<open>int64_t\<close> and \<open>fdiv\<close> is the division of two floats.
\<close>

record float_ops =
  of_int64 :: "int \<Rightarrow> float32"
  fdiv :: "float32 \<Rightarrow> float32 \<Rightarrow> float32"

definition calculateRTF :: "float_ops \<Rightarrow> SynthesisResult \<Rightarrow> SynthesisResult" where
  "calculateRTF ops r =
     (if audio_duration_ms r > 0
      then r\<lparr>rtf := fdiv ops (of_int64 ops (processing_time_ms r))
                              (of_int64 ops (audio_duration_ms r))\<rparr>
      else r)"

text \<open>Arithmetic without rounding, to run the functions on examples.\<close>

fun exact_fdiv :: "float32 \<Rightarrow> float32 \<Rightarrow> float32" where
  "exact_fdiv (Finite a) (Finite b) =
     (if b \<noteq> 0 then Finite (a / b)
      else if a > 0 then PosInf else if a < 0 then NegInf else NaN)"
| "exact_fdiv _ _ = NaN"

definition exact_ops :: float_ops where
  "exact_ops = \<lparr>of_int64 = (\<lambda>n. Finite (of_int n)), fdiv = exact_fdiv\<rparr>"

lemma getDurationMs_pos_nonempty: "0 < getDurationMs c \<Longrightarrow> samples c \<noteq> [] \<and> 0 < sample_rate c"
  by (auto simp: getDurationMs_def split: if_splits)

text \<open>
  C6 (as amended). \<open>calculateRTF\<close> sets \<open>rtf\<close> to the float quotient of the fields
  \<open>processing_time_ms\<close> and \<open>audio_duration_ms\<close> when \<open>audio_duration_ms\<close> is
  positive, and leaves \<open>rtf\<close> as it was otherwise, which is 0 for a freshly constructed
  result. When \<open>audio_duration_ms\<close> holds the chunk's \<open>getDurationMs\<close>, as
  \<open>synthesize\<close> sets it, a positive duration means that the chunk is not empty.
\<close>

theorem calculateRTF_spec:
  "rtf (calculateRTF ops r) =
     (if 0 < audio_duration_ms r
      then fdiv ops (of_int64 ops (processing_time_ms r)) (of_int64 ops (audio_duration_ms r))
      else rtf r) \<and>
   rtf (calculateRTF ops (new_SynthesisResult ic ie)) = Finite 0 \<and>
   (audio_duration_ms r = getDurationMs (audio r) \<and> 0 < audio_duration_ms r
      \<longrightarrow> samples (audio r) \<noteq> [])"
  using getDurationMs_pos_nonempty[of "audio r"]
  by (auto simp: calculateRTF_def new_SynthesisResult_def)

definition half_second_result :: SynthesisResult where
  "half_second_result =
     (new_SynthesisResult (fromFloat [] 0 True) ErrorInfo_ok)
       \<lparr>audio := fromFloat (replicate 2205 (Finite 0)) 22050 True,
        audio_duration_ms := 100, processing_time_ms := 50\<rparr>"

theorem calculateRTF_spec_witness:
  "audio_duration_ms half_second_result = getDurationMs (audio half_second_result) \<and>
   0 < audio_duration_ms half_second_result \<and>
   samples (audio half_second_result) \<noteq> [] \<and>
   rtf (calculateRTF exact_ops half_second_result) = Finite (1 / 2)"
proof -
  have a: "audio_duration_ms half_second_result = getDurationMs (audio half_second_result)"
    by (simp add: half_second_result_def getDurationMs_def fromFloat_def i32_def)
  have b: "0 < audio_duration_ms half_second_result"
    by (simp add: half_second_result_def)
  have c: "rtf (calculateRTF exact_ops half_second_result) = Finite (1 / 2)"
    using calculateRTF_spec[of exact_ops half_second_result] b
    by (simp add: exact_ops_def half_second_result_def)
  have d: "samples (audio half_second_result) \<noteq> []"
    using calculateRTF_spec[of exact_ops half_second_result] a b by blast
  from a b c d show ?thesis by blast
qed

text \<open>
  The claim as stated fails in both branches: a result with an empty chunk keeps a
  non-zero \<open>rtf\<close> it already had, and a non-empty chunk shorter than one millisecond
  has duration 0, so that \<open>rtf\<close> stays 0 where the quotient would be infinite.
\<close>

definition stale_result :: SynthesisResult where
  "stale_result =
     (new_SynthesisResult (fromFloat [] 0 True) ErrorInfo_ok)
       \<lparr>audio := fromFloat [] 22050 True, processing_time_ms := 5, rtf := Finite 2\<rparr>"

definition short_result :: SynthesisResult where
  "short_result =
     (new_SynthesisResult (fromFloat [] 0 True) ErrorInfo_ok)
       \<lparr>audio := fromFloat (replicate 10 (Finite 0)) 22050 True, processing_time_ms := 5\<rparr>
       \<lparr>audio_duration_ms := getDurationMs (fromFloat (replicate 10 (Finite 0)) 22050 True)\<rparr>"

theorem calculateRTF_counterexample:
  "samples (audio stale_result) = [] \<and>
   rtf (calculateRTF exact_ops stale_result) = Finite 2 \<and>
   samples (audio short_result) \<noteq> [] \<and>
   audio_duration_ms short_result = getDurationMs (audio short_result) \<and>
   rtf (calculateRTF exact_ops short_result) = Finite 0 \<and>
   fdiv exact_ops (of_int64 exact_ops (processing_time_ms short_result))
                  (of_int64 exact_ops (audio_duration_ms short_result)) = PosInf"
  by (simp add: stale_result_def short_result_def getDurationMs_def fromFloat_def
      new_SynthesisResult_def i32_def calculateRTF_def exact_ops_def)

section \<open>Regular expressions as std::regex matches them\<close>

text \<open>
  The normalizer's patterns, in the ECMAScript grammar over bytes. \<open>rmatch\<close> lists the
  ways an expression matches at the head of the input, in the order the backtracking
  matcher tries them: each is the groups captured, the last byte consumed (for
  \<open>\b\<close>) and the input left. A starred expression iterates on a strictly shorter
  input.
\<close>

datatype regex =
    Eps
  | OneOf "char list"
  | Seq regex regex
  | Alt regex regex
  | Opt regex
  | Star regex
  | Group nat regex
  | WordBoundary

type_synonym captures = "(nat \<times> string) list"
type_synonym match_state = "captures \<times> char option \<times> string"

definition is_word_char :: "char \<Rightarrow> bool" where
  "is_word_char c = (let n = (of_char c :: nat) in
     (48 \<le> n \<and> n \<le> 57) \<or> (65 \<le> n \<and> n \<le> 90) \<or> (97 \<le> n \<and> n \<le> 122) \<or> n = 95)"

definition at_word_boundary :: "char option \<Rightarrow> string \<Rightarrow> bool" where
  "at_word_boundary prev rest =
     ((case prev of None \<Rightarrow> False | Some c \<Rightarrow> is_word_char c)
      \<noteq> (case rest of [] \<Rightarrow> False | c # cs \<Rightarrow> is_word_char c))"

fun star_iter :: "nat \<Rightarrow> (captures \<Rightarrow> char option \<Rightarrow> string \<Rightarrow> match_state list)
    \<Rightarrow> captures \<Rightarrow> char option \<Rightarrow> string \<Rightarrow> match_state list" where
  "star_iter 0 body caps prev rest = [(caps, prev, rest)]"
| "star_iter (Suc fuel) body caps prev rest =
     concat (map (\<lambda>(c1, p1, r1). star_iter fuel body c1 p1 r1)
               (filter (\<lambda>(c1, p1, r1). length r1 < length rest) (body caps prev rest)))
     @ [(caps, prev, rest)]"

primrec rmatch :: "regex \<Rightarrow> captures \<Rightarrow> char option \<Rightarrow> string \<Rightarrow> match_state list" where
  "rmatch Eps = (\<lambda>caps prev rest. [(caps, prev, rest)])"
| "rmatch (OneOf cs) = (\<lambda>caps prev rest.
     (case rest of [] \<Rightarrow> [] | c # r \<Rightarrow> if c \<in> set cs then [(caps, Some c, r)] else []))"
| "rmatch (Seq a b) = (\<lambda>caps prev rest.
     concat (map (\<lambda>(c1, p1, r1). rmatch b c1 p1 r1) (rmatch a caps prev rest)))"
| "rmatch (Alt a b) = (\<lambda>caps prev rest. rmatch a caps prev rest @ rmatch b caps prev rest)"
| "rmatch (Opt a) = (\<lambda>caps prev rest. rmatch a caps prev rest @ [(caps, prev, rest)])"
| "rmatch (Star a) = (\<lambda>caps prev rest. star_iter (length rest) (rmatch a) caps prev rest)"
| "rmatch (Group k a) = (\<lambda>caps prev rest.
     map (\<lambda>(c1, p1, r1). ((k, take (length rest - length r1) rest) # c1, p1, r1))
       (rmatch a caps prev rest))"
| "rmatch WordBoundary = (\<lambda>caps prev rest.
     if at_word_boundary prev rest then [(caps, prev, rest)] else [])"

definition lit :: "string \<Rightarrow> regex" where
  "lit s = foldr (\<lambda>c r. Seq (OneOf [c]) r) s Eps"

definition digit :: regex where
  "digit = OneOf ''0123456789''"

fun repeat_n :: "nat \<Rightarrow> regex \<Rightarrow> regex" where
  "repeat_n 0 r = Eps"
| "repeat_n (Suc n) r = Seq r (repeat_n n r)"

fun repeat_up_to :: "nat \<Rightarrow> regex \<Rightarrow> regex" where
  "repeat_up_to 0 r = Eps"
| "repeat_up_to (Suc n) r = Opt (Seq r (repeat_up_to n r))"

definition repeat_between :: "nat \<Rightarrow> nat \<Rightarrow> regex \<Rightarrow> regex" where
  "repeat_between lo hi r = Seq (repeat_n lo r) (repeat_up_to (hi - lo) r)"

definition one_or_more :: "regex \<Rightarrow> regex" where
  "one_or_more r = Seq r (Star r)"

text \<open>
  \<open>regex_search\<close> finds the first position where the expression matches and returns
  the text in front of it with the match the backtracking order prefers.
\<close>

fun regex_search :: "regex \<Rightarrow> char option \<Rightarrow> string \<Rightarrow> (string \<times> match_state) option" where
  "regex_search r prev [] =
     (case rmatch r [] prev [] of [] \<Rightarrow> None | ms # _ \<Rightarrow> Some ([], ms))"
| "regex_search r prev (c # cs) =
     (case rmatch r [] prev (c # cs) of
        ms # _ \<Rightarrow> Some ([], ms)
      | [] \<Rightarrow> (case regex_search r (Some c) cs of
                 None \<Rightarrow> None
               | Some (skipped, ms) \<Rightarrow> Some (c # skipped, ms)))"


section \<open>Text utilities (text_utils)\<close>

text \<open>
  Strings are byte strings (\<open>std::string\<close>); a Chinese character is its three UTF-8
  bytes. \<open>splitUtf8\<close> cuts a string into characters by the lead byte; a piece that would
  run past the end is dropped.
\<close>

definition byte :: "char \<Rightarrow> nat" where
  "byte c = of_char c"

definition utf8_char_len :: "char \<Rightarrow> nat" where
  "utf8_char_len c =
     (let n = byte c in
      if n < 128 then 1
      else if 192 \<le> n \<and> n < 224 then 2
      else if 224 \<le> n \<and> n < 240 then 3
      else if 240 \<le> n \<and> n < 248 then 4
      else 1)"

lemma utf8_char_len_pos: "0 < utf8_char_len c"
  by (simp add: utf8_char_len_def Let_def)

function splitUtf8 :: "string \<Rightarrow> string list" where
  "splitUtf8 [] = []"
| "splitUtf8 (c # cs) =
     (let char_len = utf8_char_len c in
      if char_len \<le> length (c # cs)
      then take char_len (c # cs) # splitUtf8 (drop (char_len - 1) cs)
      else splitUtf8 (drop (char_len - 1) cs))"
  by pat_completeness auto
termination
  by (relation "measure length") auto

definition isChineseChar :: "string \<Rightarrow> bool" where
  "isChineseChar ch =
     (if length ch \<noteq> 3 then False
      else (let c0 = byte (ch ! 0); c1 = byte (ch ! 1) in
            if 228 \<le> c0 \<and> c0 \<le> 233
            then (if c0 = 228 \<and> c1 < 184 then False
                  else if c0 = 233 \<and> c1 > 191 then False
                  else True)
            else False))"

definition isEnglishLetter :: "string \<Rightarrow> bool" where
  "isEnglishLetter ch =
     (if length ch \<noteq> 1 then False
      else (let c = byte (ch ! 0) in (65 \<le> c \<and> c \<le> 90) \<or> (97 \<le> c \<and> c \<le> 122)))"

definition isDigit :: "string \<Rightarrow> bool" where
  "isDigit ch =
     (if length ch \<noteq> 1 then False
      else (let c = byte (ch ! 0) in 48 \<le> c \<and> c \<le> 57))"

definition isdigit :: "char \<Rightarrow> bool" where
  "isdigit c = (48 \<le> byte c \<and> byte c \<le> 57)"

definition isspace :: "char \<Rightarrow> bool" where
  "isspace c = (byte c = 32 \<or> (9 \<le> byte c \<and> byte c \<le> 13))"

subsection \<open>Helpers of the phonemizers (text_utils, phoneme_utils)\<close>

definition isChinese :: "char \<Rightarrow> bool" where
  "isChinese ch = (228 \<le> byte ch \<and> byte ch \<le> 233)"

definition containsChinese :: "string \<Rightarrow> bool" where
  "containsChinese text = list_ex isChinese text"

text \<open>The comparisons of \<open>mapChinesePunctToAscii\<close> in their order; the first that holds
  decides.\<close>

definition mapChinesePunctToAscii :: "string \<Rightarrow> string" where
  "mapChinesePunctToAscii punct =
     (case map_of [
        ([CHR 0xEF, CHR 0xBC, CHR 0x81], ''!''), ([CHR 0xEF, CHR 0xBC, CHR 0x9F], ''?''),
        ([CHR 0xEF, CHR 0xBC, CHR 0x8C], '',''), ([CHR 0xE3, CHR 0x80, CHR 0x82], ''.''),
        ([CHR 0xEF, CHR 0xBC, CHR 0x9A], '':''), ([CHR 0xEF, CHR 0xBC, CHR 0x9B], '';''),
        ([CHR 0xE3, CHR 0x80, CHR 0x81], '',''), ([CHR 0x27], [CHR 0x27]),
        ([CHR 0x27], [CHR 0x27]), ([CHR 0xE2, CHR 0x80, CHR 0x94], ''-''),
        ([CHR 0xE2, CHR 0x80, CHR 0x93], ''-''), ([CHR 0xE2, CHR 0x80, CHR 0xA6], ''...'')] punct of
        Some ascii \<Rightarrow> ascii
      | None \<Rightarrow> punct)"

text \<open>
  The loop \<open>while ((pos = text.find(from, pos)) != npos) { text.replace(pos, from.length(),
  to); pos += to.length(); }\<close>: every occurrence found from left to right is replaced and
  the search goes on behind the replacement. Erasing is replacing by the empty string.
  No pattern of the source is empty.
\<close>

function replace_all :: "string \<Rightarrow> string \<Rightarrow> string \<Rightarrow> string" where
  "replace_all pat rep s =
     (if pat = [] \<or> s = [] then s
      else if take (length pat) s = pat then rep @ replace_all pat rep (drop (length pat) s)
      else hd s # replace_all pat rep (tl s))"
  by pat_completeness auto
termination
  by (relation "measure (\<lambda>(pat, rep, s). length s)") auto

definition replacements :: "(string \<times> string) list" where
  "replacements = [
     ([CHR 0xC9, CHR 0x9D], [CHR 0xC9, CHR 0x9C, CHR 0xC9, CHR 0xB9]),
     ([CHR 0xC9, CHR 0x9A], [CHR 0xC9, CHR 0x99, CHR 0xC9, CHR 0xB9]),
     ((''e'' @ [CHR 0xC9, CHR 0xAA]), ''A''), ((''a'' @ [CHR 0xC9, CHR 0xAA]), ''I''),
     ([CHR 0xC9, CHR 0x94, CHR 0xC9, CHR 0xAA], ''Y''), ((''o'' @ [CHR 0xCA, CHR 0x8A]), ''O''),
     ([CHR 0xC9, CHR 0x99, CHR 0xCA, CHR 0x8A], ''O''),
     ([CHR 0xC9, CHR 0x9B, CHR 0xCA, CHR 0x8A], ''O''),
     ((''a'' @ [CHR 0xCA, CHR 0x8A]), ''W''), ((''t'' @ [CHR 0xCA, CHR 0x83]), [CHR 0xCA, CHR 0xA7]),
     ((''d'' @ [CHR 0xCA, CHR 0x92]), [CHR 0xCA, CHR 0xA4]), (''g'', [CHR 0xC9, CHR 0xA1]),
     (''r'', [CHR 0xC9, CHR 0xB9])]"

definition convertToGruutEnUs :: "string \<Rightarrow> string" where
  "convertToGruutEnUs ipa =
     foldl (\<lambda>t (from, to). replace_all from to t)
       (replace_all [CHR 0xE2, CHR 0x80, CHR 0x8D] [] ipa) replacements"

section \<open>Number readings (number_utils, text_normalizer)\<close>

datatype Language = ZH | EN | AUTO

datatype NumberType =
    CARDINAL | ORDINAL | DIGIT | PHONE | YEAR | DATE | TIME | PERCENTAGE | DECIMAL
  | FRACTION | CURRENCY | RANGE | SCORE | UNKNOWN

text \<open>
  What a normalizer call can end with instead of a string: the exception \<open>std::stoi\<close> or
  \<open>std::stoll\<close> throws, a read outside one of the constant tables, or the negation of
  \<open>INT64_MIN\<close>, which overflows.
\<close>

datatype norm_failure =
  out_of_range string | invalid_argument string | TableOverrun | NegationOverflow

definition fbind :: "norm_failure + 'a \<Rightarrow> ('a \<Rightarrow> norm_failure + 'b) \<Rightarrow> norm_failure + 'b" where
  "fbind x f = (case x of Inl failure \<Rightarrow> Inl failure | Inr v \<Rightarrow> f v)"

definition digit_value :: "char \<Rightarrow> int" where
  "digit_value c = int (byte c) - 48"

definition parse_integer :: "string \<Rightarrow> int option" where
  "parse_integer s =
     (let t = dropWhile isspace s;
          negative = (t \<noteq> [] \<and> hd t = CHR ''-'');
          u = (if t \<noteq> [] \<and> (hd t = CHR ''-'' \<or> hd t = CHR ''+'') then tl t else t);
          ds = takeWhile isdigit u
      in if ds = [] then None
         else (let n = foldl (\<lambda>acc c. acc * 10 + digit_value c) 0 ds
               in Some (if negative then - n else n)))"

definition stoi :: "string \<Rightarrow> norm_failure + int" where
  "stoi s =
     (case parse_integer s of
        None \<Rightarrow> Inl (invalid_argument ''stoi'')
      | Some n \<Rightarrow> if n < - 2147483648 \<or> 2147483647 < n then Inl (out_of_range ''stoi'')
                  else Inr n)"

definition stoll :: "string \<Rightarrow> norm_failure + int" where
  "stoll s =
     (case parse_integer s of
        None \<Rightarrow> Inl (invalid_argument ''stoll'')
      | Some n \<Rightarrow> if n < - 9223372036854775808 \<or> 9223372036854775807 < n
                  then Inl (out_of_range ''stoll'')
                  else Inr n)"

definition ENGLISH_ONES :: "string list" where
  "ENGLISH_ONES = [[], ''one'', ''two'', ''three'', ''four'', ''five'', ''six'', ''seven'',
     ''eight'', ''nine'', ''ten'', ''eleven'', ''twelve'', ''thirteen'', ''fourteen'',
     ''fifteen'', ''sixteen'', ''seventeen'', ''eighteen'', ''nineteen'']"

definition ENGLISH_TENS :: "string list" where
  "ENGLISH_TENS = [[], [], ''twenty'', ''thirty'', ''forty'', ''fifty'', ''sixty'', ''seventy'',
     ''eighty'', ''ninety'']"

definition ENGLISH_ORDINALS :: "string list" where
  "ENGLISH_ORDINALS = [[], ''first'', ''second'', ''third'', ''fourth'', ''fifth'', ''sixth'',
     ''seventh'', ''eighth'', ''ninth'', ''tenth'', ''eleventh'', ''twelfth'', ''thirteenth'',
     ''fourteenth'', ''fifteenth'', ''sixteenth'', ''seventeenth'', ''eighteenth'',
     ''nineteenth'']"

definition ENGLISH_DIGIT_NAMES :: "string list" where
  "ENGLISH_DIGIT_NAMES = [''zero'', ''one'', ''two'', ''three'', ''four'', ''five'', ''six'',
     ''seven'', ''eight'', ''nine'']"

text \<open>The Chinese digits U+96F6, U+4E00, U+4E8C, U+4E09, U+56DB, U+4E94, U+516D, U+4E03,
  U+516B, U+4E5D.\<close>

definition CHINESE_DIGIT_NAMES :: "string list" where
  "CHINESE_DIGIT_NAMES = [[CHR 0xE9, CHR 0x9B, CHR 0xB6], [CHR 0xE4, CHR 0xB8, CHR 0x80], [CHR 0xE4, CHR 0xBA, CHR 0x8C], [CHR 0xE4, CHR 0xB8, CHR 0x89], [CHR 0xE5, CHR 0x9B, CHR 0x9B],
     [CHR 0xE4, CHR 0xBA, CHR 0x94], [CHR 0xE5, CHR 0x85, CHR 0xAD], [CHR 0xE4, CHR 0xB8, CHR 0x83], [CHR 0xE5, CHR 0x85, CHR 0xAB], [CHR 0xE4, CHR 0xB9, CHR 0x9D]]"

definition ENGLISH_MONTHS :: "string list" where
  "ENGLISH_MONTHS = [[], ''January'', ''February'', ''March'', ''April'', ''May'', ''June'',
     ''July'', ''August'', ''September'', ''October'', ''November'', ''December'']"

definition table_at :: "string list \<Rightarrow> int \<Rightarrow> norm_failure + string" where
  "table_at table i =
     (if 0 \<le> i \<and> i < int (length table) then Inr (table ! nat i) else Inl TableOverrun)"

lemma step_le:
  "xa = (if k \<le> num then num mod k else num) \<Longrightarrow> 0 < k \<Longrightarrow> xa \<le> (num::int)"
  by (auto intro: zmod_le_nonneg_dividend)

lemma div_in_measure:
  assumes "k \<le> n" "n \<le> num" "1 < (k::int)"
  shows "(n div k, num) \<in> measure nat"
proof -
  have "0 < n" using assms(1,3) by linarith
  then have "n div k < n" using assms(3) by (rule int_div_less_self)
  moreover have "0 \<le> n div k" using \<open>0 < n\<close> assms(3) by (simp add: pos_imp_zdiv_nonneg_iff)
  ultimately show ?thesis using assms(2) by simp
qed

text \<open>
  \<open>intToChineseReading\<close> and the English branch of \<open>numberToWords\<close> return \<open>zero\<close> for 0,
  put the sign in front of the reading of \<open>-num\<close> for a negative \<open>num\<close>, and otherwise
  update \<open>result\<close> and \<open>num\<close> through a chain of tests, calling themselves on quotients,
  which are positive. \<open>intToChineseReading_positive\<close> and \<open>numberToWords_positive\<close> are
  the functions behind their first two tests, where \<open>num\<close> is positive (for another
  \<open>num\<close> every test of the chain would fail and \<open>result\<close> stay empty); \<open>r\<close>\<open>k\<close> and
  \<open>n\<close>\<open>k\<close> are the values of \<open>result\<close> and \<open>num\<close> after test \<open>k\<close>. The units are U+4E07 U+4EBF, U+4EBF, U+4E07,
  U+5343, U+767E, U+5341; the sign is U+8D1F. The argument is an \<open>int64_t\<close>: \<open>-num\<close>
  overflows at \<open>INT64_MIN\<close>.
\<close>

definition INT64_MIN :: int where
  "INT64_MIN = - 9223372036854775808"

function intToChineseReading_positive :: "int \<Rightarrow> string" where
  "intToChineseReading_positive num =
     (if num \<le> 0 then []
      else
        (let r1 = (if num \<ge> 1000000000000
                   then intToChineseReading_positive (num div 1000000000000) @ [CHR 0xE4, CHR 0xB8, CHR 0x87, CHR 0xE4, CHR 0xBA, CHR 0xBF] else []);
             n1 = (if num \<ge> 1000000000000 then num mod 1000000000000 else num);
             r1z = (if num \<ge> 1000000000000 \<and> n1 > 0 \<and> n1 < 100000000000
                    then r1 @ [CHR 0xE9, CHR 0x9B, CHR 0xB6] else r1);
             r2 = (if n1 \<ge> 100000000
                   then r1z @ intToChineseReading_positive (n1 div 100000000) @ [CHR 0xE4, CHR 0xBA, CHR 0xBF] else r1z);
             n2 = (if n1 \<ge> 100000000 then n1 mod 100000000 else n1);
             r2z = (if n1 \<ge> 100000000 \<and> n2 > 0 \<and> n2 < 10000000 then r2 @ [CHR 0xE9, CHR 0x9B, CHR 0xB6] else r2);
             r3 = (if n2 \<ge> 10000
                   then r2z @ intToChineseReading_positive (n2 div 10000) @ [CHR 0xE4, CHR 0xB8, CHR 0x87] else r2z);
             n3 = (if n2 \<ge> 10000 then n2 mod 10000 else n2);
             r3z = (if n2 \<ge> 10000 \<and> n3 > 0 \<and> n3 < 1000 then r3 @ [CHR 0xE9, CHR 0x9B, CHR 0xB6] else r3);
             r4 = (if n3 \<ge> 1000
                   then r3z @ CHINESE_DIGIT_NAMES ! nat (n3 div 1000) @ [CHR 0xE5, CHR 0x8D, CHR 0x83] else r3z);
             n4 = (if n3 \<ge> 1000 then n3 mod 1000 else n3);
             r4z = (if n3 \<ge> 1000 \<and> n4 > 0 \<and> n4 < 100 then r4 @ [CHR 0xE9, CHR 0x9B, CHR 0xB6] else r4);
             r5 = (if n4 \<ge> 100
                   then r4z @ CHINESE_DIGIT_NAMES ! nat (n4 div 100) @ [CHR 0xE7, CHR 0x99, CHR 0xBE] else r4z);
             n5 = (if n4 \<ge> 100 then n4 mod 100 else n4);
             r5z = (if n4 \<ge> 100 \<and> n5 > 0 \<and> n5 < 10 then r5 @ [CHR 0xE9, CHR 0x9B, CHR 0xB6] else r5);
             r6 = (if n5 \<ge> 10
                   then (if n5 div 10 \<noteq> 1 \<or> length r5z > 0
                         then r5z @ CHINESE_DIGIT_NAMES ! nat (n5 div 10) else r5z) @ [CHR 0xE5, CHR 0x8D, CHR 0x81]
                   else r5z);
             n6 = (if n5 \<ge> 10 then n5 mod 10 else n5)
         in if n6 > 0 then r6 @ CHINESE_DIGIT_NAMES ! nat n6 else r6))"
  by pat_completeness auto
termination
  apply (relation "measure nat")
  subgoal by simp
  subgoal for num by (rule div_in_measure) simp_all
  subgoal premises p for num r1 n1 r1z
  proof -
    have b: "n1 \<le> num" using step_le[OF p(3)] by simp
    show ?thesis using div_in_measure[of 100000000 n1 num] b p(5) by simp
  qed
  subgoal premises p for num r1 n1 r1z r2 n2 r2z
  proof -
    have b: "n1 \<le> num" using step_le[OF p(3)] by simp
    have c: "n2 \<le> n1" using step_le[OF p(6)] by simp
    show ?thesis using div_in_measure[of 10000 n2 num] b c p(8) by simp
  qed
  done

definition intToChineseReading :: "int \<Rightarrow> norm_failure + string" where
  "intToChineseReading num =
     (if num = 0 then Inr [CHR 0xE9, CHR 0x9B, CHR 0xB6]
      else if num < 0
      then (if num = INT64_MIN then Inl NegationOverflow
            else Inr ([CHR 0xE8, CHR 0xB4, CHR 0x9F] @ intToChineseReading_positive (- num)))
      else Inr (intToChineseReading_positive num))"

function numberToWords_positive :: "int \<Rightarrow> string" where
  "numberToWords_positive num =
     (if num \<le> 0 then []
      else
        (let r1 = (if num \<ge> 1000000000000
                   then numberToWords_positive (num div 1000000000000) @ '' trillion '' else []);
             n1 = (if num \<ge> 1000000000000 then num mod 1000000000000 else num);
             r2 = (if n1 \<ge> 1000000000
                   then r1 @ numberToWords_positive (n1 div 1000000000) @ '' billion '' else r1);
             n2 = (if n1 \<ge> 1000000000 then n1 mod 1000000000 else n1);
             r3 = (if n2 \<ge> 1000000
                   then r2 @ numberToWords_positive (n2 div 1000000) @ '' million '' else r2);
             n3 = (if n2 \<ge> 1000000 then n2 mod 1000000 else n2);
             r4 = (if n3 \<ge> 1000
                   then r3 @ numberToWords_positive (n3 div 1000) @ '' thousand '' else r3);
             n4 = (if n3 \<ge> 1000 then n3 mod 1000 else n3);
             r5 = (if n4 \<ge> 100
                   then r4 @ ENGLISH_ONES ! nat (n4 div 100) @ '' hundred '' else r4);
             n5 = (if n4 \<ge> 100 then n4 mod 100 else n4);
             r6 = (if n5 \<ge> 20
                   then r5 @ ENGLISH_TENS ! nat (n5 div 10) @
                        (if n5 mod 10 \<noteq> 0 then ''-'' @ ENGLISH_ONES ! nat (n5 mod 10) else [])
                   else r5);
             n6 = (if n5 \<ge> 20 then 0 else n5);
             r7 = (if n6 > 0 then r6 @ ENGLISH_ONES ! nat n6 else r6)
         in rev (dropWhile (\<lambda>c. c = CHR '' '') (rev r7))))"
  by pat_completeness auto
termination
  apply (relation "measure nat")
  subgoal by simp
  subgoal for num by (rule div_in_measure) simp_all
  subgoal premises p for num r1 n1
  proof -
    have b: "n1 \<le> num" using step_le[OF p(3)] by simp
    show ?thesis using div_in_measure[of 1000000000 n1 num] b p(4) by simp
  qed
  subgoal premises p for num r1 n1 r2 n2
  proof -
    have b: "n1 \<le> num" using step_le[OF p(3)] by simp
    have c: "n2 \<le> n1" using step_le[OF p(5)] by simp
    show ?thesis using div_in_measure[of 1000000 n2 num] b c p(6) by simp
  qed
  subgoal premises p for num r1 n1 r2 n2 r3 n3
  proof -
    have b: "n1 \<le> num" using step_le[OF p(3)] by simp
    have c: "n2 \<le> n1" using step_le[OF p(5)] by simp
    have d: "n3 \<le> n2" using step_le[OF p(7)] by simp
    show ?thesis using div_in_measure[of 1000 n3 num] b c d p(8) by simp
  qed
  done

definition numberToWords :: "int \<Rightarrow> Language \<Rightarrow> norm_failure + string" where
  "numberToWords num lang =
     (if lang = EN
      then (if num = 0 then Inr ''zero''
            else if num < 0
            then (if num = INT64_MIN then Inl NegationOverflow
                  else Inr (''negative '' @ numberToWords_positive (- num)))
            else Inr (numberToWords_positive num))
      else intToChineseReading num)"

definition numberToDigits :: "string \<Rightarrow> Language \<Rightarrow> string" where
  "numberToDigits num lang =
     foldl (\<lambda>result c.
              if isdigit c
              then (if result \<noteq> [] then result @ (if lang = EN then '' '' else []) else result)
                   @ (if lang = EN then ENGLISH_DIGIT_NAMES ! nat (digit_value c)
                      else CHINESE_DIGIT_NAMES ! nat (digit_value c))
              else result)
       [] num"

text \<open>The decimal point is read U+70B9; an empty integer part or \<open>0\<close> is read zero.\<close>

definition decimalToWords :: "string \<Rightarrow> Language \<Rightarrow> norm_failure + string" where
  "decimalToWords decimal lang =
     (if CHR ''.'' \<notin> set decimal
      then fbind (stoll decimal) (\<lambda>n. numberToWords n lang)
      else
        (let integer_part = takeWhile (\<lambda>c. c \<noteq> CHR ''.'') decimal;
             decimal_part = tl (dropWhile (\<lambda>c. c \<noteq> CHR ''.'') decimal);
             fraction = foldl (\<lambda>r c. if isdigit c
                                 then r @ (if lang = EN
                                           then '' '' @ ENGLISH_DIGIT_NAMES ! nat (digit_value c)
                                           else CHINESE_DIGIT_NAMES ! nat (digit_value c))
                                 else r) [] decimal_part;
             point = (if lang = EN then '' point'' else [CHR 0xE7, CHR 0x82, CHR 0xB9])
         in if integer_part = [] \<or> integer_part = ''0''
            then Inr ((if lang = EN then ''zero'' else [CHR 0xE9, CHR 0x9B, CHR 0xB6]) @ point @ fraction)
            else fbind (stoll integer_part) (\<lambda>n.
                 fbind (numberToWords n lang) (\<lambda>words. Inr (words @ point @ fraction)))))"

text \<open>\<open>%\<close> of C++ truncates towards zero.\<close>

definition c_mod :: "int \<Rightarrow> int \<Rightarrow> int" where
  "c_mod a b = sgn a * (\<bar>a\<bar> mod \<bar>b\<bar>)"

definition ends_with :: "string \<Rightarrow> string \<Rightarrow> bool" where
  "ends_with s suffix = (length s > length suffix \<and> drop (length s - length suffix) s = suffix)"

definition ordinalToWords :: "int \<Rightarrow> Language \<Rightarrow> norm_failure + string" where
  "ordinalToWords num lang =
     (if lang = EN
      then (if 1 \<le> num \<and> num < 20 then Inr (ENGLISH_ORDINALS ! nat num)
            else fbind (numberToWords num lang) (\<lambda>base.
              Inr (let cut = (\<lambda>k. take (length base - k) base)
               in if c_mod num 10 = 1 \<and> c_mod num 100 \<noteq> 11 \<and>
                     (ends_with base ''-one'' \<or> ends_with base ''one'')
                  then cut 3 @ ''first''
                  else if \<not> (c_mod num 10 = 1 \<and> c_mod num 100 \<noteq> 11) \<and>
                          c_mod num 10 = 2 \<and> c_mod num 100 \<noteq> 12 \<and>
                          (ends_with base ''-two'' \<or> ends_with base ''two'')
                  then cut 3 @ ''second''
                  else if \<not> (c_mod num 10 = 1 \<and> c_mod num 100 \<noteq> 11) \<and>
                          \<not> (c_mod num 10 = 2 \<and> c_mod num 100 \<noteq> 12) \<and>
                          c_mod num 10 = 3 \<and> c_mod num 100 \<noteq> 13 \<and>
                          (ends_with base ''-three'' \<or> ends_with base ''three'')
                  then cut 5 @ ''third''
                  else if base \<noteq> [] \<and> last base = CHR ''y''
                  then cut 1 @ ''ieth''
                  else base @ ''th'')))
      else fbind (intToChineseReading num) (\<lambda>reading.
             Inr ([CHR 0xE7, CHR 0xAC, CHR 0xAC] @ reading)))"

text \<open>\<open>std::to_string\<close> of an \<open>int\<close>: the decimal digits, after a minus sign when negative.\<close>

function decimal_digits :: "nat \<Rightarrow> string" where
  "decimal_digits n =
     (if n < 10 then [char_of (48 + n)] else decimal_digits (n div 10) @ [char_of (48 + n mod 10)])"
  by pat_completeness auto
termination
  by (relation "measure id") auto

definition to_string :: "int \<Rightarrow> string" where
  "to_string n = (if n < 0 then ''-'' @ decimal_digits (nat (- n)) else decimal_digits (nat n))"

definition yearToWords :: "int \<Rightarrow> Language \<Rightarrow> norm_failure + string" where
  "yearToWords year lang =
     (if lang = EN
      then
        (if 2000 \<le> year \<and> year < 2010
         then (if year = 2000 then Inr ''two thousand ''
               else fbind (numberToWords (year - 2000) lang) (\<lambda>rest.
                      Inr (''two thousand '' @ ''and '' @ rest)))
         else if 2010 \<le> year \<and> year < 2100
         then fbind (numberToWords (year div 100) lang) (\<lambda>first.
              fbind (numberToWords (year mod 100) lang) (\<lambda>second.
                Inr (first @ '' '' @ second)))
         else if 1000 \<le> year \<and> year < 2000
         then fbind (numberToWords (year div 100) lang) (\<lambda>first.
                if year mod 100 = 0 then Inr (first @ '' hundred'')
                else fbind (numberToWords (year mod 100) lang) (\<lambda>second.
                       if year mod 100 < 10 then Inr (first @ '' oh '' @ second)
                       else Inr (first @ '' '' @ second)))
         else numberToWords year lang)
      else foldl (\<lambda>result c.
                    case result of
                      Inl failure \<Rightarrow> Inl failure
                    | Inr r \<Rightarrow> map_sum id (\<lambda>name. r @ name)
                               (table_at CHINESE_DIGIT_NAMES (digit_value c)))
             (Inr []) (to_string year))"


section \<open>Text normalizer: the tables\<close>

text \<open>
  Each table maps a key to its Chinese and its English reading, in the order of the
  source. The keys are distinct, so that the \<open>unordered_map\<close> is the association list.
\<close>

definition MATH_OPERATORS :: "(string \<times> string \<times> string) list" where
  "MATH_OPERATORS =
    [(''+'', [CHR 0xE5, CHR 0x8A, CHR 0xA0], ''plus''),
     (''-'', [CHR 0xE5, CHR 0x87, CHR 0x8F], ''minus''),
     ([CHR 0xE2, CHR 0x88, CHR 0x92], [CHR 0xE5, CHR 0x87, CHR 0x8F], ''minus''),
     (''*'', [CHR 0xE4, CHR 0xB9, CHR 0x98], ''times''),
     ([CHR 0xC3, CHR 0x97], [CHR 0xE4, CHR 0xB9, CHR 0x98], ''times''),
     ([CHR 0xC3, CHR 0xB7], [CHR 0xE9, CHR 0x99, CHR 0xA4, CHR 0xE4, CHR 0xBB, CHR 0xA5], ''divided by''),
     (''/'', [CHR 0xE9, CHR 0x99, CHR 0xA4, CHR 0xE4, CHR 0xBB, CHR 0xA5], ''divided by''),
     (''='', [CHR 0xE7, CHR 0xAD, CHR 0x89, CHR 0xE4, CHR 0xBA, CHR 0x8E], ''equals''),
     ([CHR 0xE2, CHR 0x89, CHR 0xA0], [CHR 0xE4, CHR 0xB8, CHR 0x8D, CHR 0xE7, CHR 0xAD, CHR 0x89, CHR 0xE4, CHR 0xBA, CHR 0x8E], ''not equal to''),
     (''>'', [CHR 0xE5, CHR 0xA4, CHR 0xA7, CHR 0xE4, CHR 0xBA, CHR 0x8E], ''greater than''),
     (''<'', [CHR 0xE5, CHR 0xB0, CHR 0x8F, CHR 0xE4, CHR 0xBA, CHR 0x8E], ''less than''),
     ([CHR 0xE2, CHR 0x89, CHR 0xA5], [CHR 0xE5, CHR 0xA4, CHR 0xA7, CHR 0xE4, CHR 0xBA, CHR 0x8E, CHR 0xE7, CHR 0xAD, CHR 0x89, CHR 0xE4, CHR 0xBA, CHR 0x8E], ''greater than or equal to''),
     ([CHR 0xE2, CHR 0x89, CHR 0xA4], [CHR 0xE5, CHR 0xB0, CHR 0x8F, CHR 0xE4, CHR 0xBA, CHR 0x8E, CHR 0xE7, CHR 0xAD, CHR 0x89, CHR 0xE4, CHR 0xBA, CHR 0x8E], ''less than or equal to''),
     (''>='', [CHR 0xE5, CHR 0xA4, CHR 0xA7, CHR 0xE4, CHR 0xBA, CHR 0x8E, CHR 0xE7, CHR 0xAD, CHR 0x89, CHR 0xE4, CHR 0xBA, CHR 0x8E], ''greater than or equal to''),
     (''<='', [CHR 0xE5, CHR 0xB0, CHR 0x8F, CHR 0xE4, CHR 0xBA, CHR 0x8E, CHR 0xE7, CHR 0xAD, CHR 0x89, CHR 0xE4, CHR 0xBA, CHR 0x8E], ''less than or equal to''),
     ([CHR 0x5E], [CHR 0xE7, CHR 0x9A, CHR 0x84], ''to the power of''),
     ([CHR 0xE2, CHR 0x88, CHR 0x9A], [CHR 0xE6, CHR 0xA0, CHR 0xB9, CHR 0xE5, CHR 0x8F, CHR 0xB7], ''square root of''),
     ([CHR 0xC2, CHR 0xB1], [CHR 0xE6, CHR 0xAD, CHR 0xA3, CHR 0xE8, CHR 0xB4, CHR 0x9F], ''plus or minus'')]"

definition UNITS :: "(string \<times> string \<times> string) list" where
  "UNITS =
    [(''km'', [CHR 0xE5, CHR 0x85, CHR 0xAC, CHR 0xE9, CHR 0x87, CHR 0x8C], ''kilometers''),
     (''m'', [CHR 0xE7, CHR 0xB1, CHR 0xB3], ''meters''),
     (''cm'', [CHR 0xE5, CHR 0x8E, CHR 0x98, CHR 0xE7, CHR 0xB1, CHR 0xB3], ''centimeters''),
     (''mm'', [CHR 0xE6, CHR 0xAF, CHR 0xAB, CHR 0xE7, CHR 0xB1, CHR 0xB3], ''millimeters''),
     (''mi'', [CHR 0xE8, CHR 0x8B, CHR 0xB1, CHR 0xE9, CHR 0x87, CHR 0x8C], ''miles''),
     (''ft'', [CHR 0xE8, CHR 0x8B, CHR 0xB1, CHR 0xE5, CHR 0xB0, CHR 0xBA], ''feet''),
     (''in'', [CHR 0xE8, CHR 0x8B, CHR 0xB1, CHR 0xE5, CHR 0xAF, CHR 0xB8], ''inches''),
     (''kg'', [CHR 0xE5, CHR 0x85, CHR 0xAC, CHR 0xE6, CHR 0x96, CHR 0xA4], ''kilograms''),
     (''g'', [CHR 0xE5, CHR 0x85, CHR 0x8B], ''grams''),
     (''mg'', [CHR 0xE6, CHR 0xAF, CHR 0xAB, CHR 0xE5, CHR 0x85, CHR 0x8B], ''milligrams''),
     (''lb'', [CHR 0xE7, CHR 0xA3, CHR 0x85], ''pounds''),
     (''oz'', [CHR 0xE7, CHR 0x9B, CHR 0x8E, CHR 0xE5, CHR 0x8F, CHR 0xB8], ''ounces''),
     (''L'', [CHR 0xE5, CHR 0x8D, CHR 0x87], ''liters''),
     (''l'', [CHR 0xE5, CHR 0x8D, CHR 0x87], ''liters''),
     (''ml'', [CHR 0xE6, CHR 0xAF, CHR 0xAB, CHR 0xE5, CHR 0x8D, CHR 0x87], ''milliliters''),
     (''mL'', [CHR 0xE6, CHR 0xAF, CHR 0xAB, CHR 0xE5, CHR 0x8D, CHR 0x87], ''milliliters''),
     (([CHR 0xC2, CHR 0xB0] @ ''C''), [CHR 0xE6, CHR 0x91, CHR 0x84, CHR 0xE6, CHR 0xB0, CHR 0x8F, CHR 0xE5, CHR 0xBA, CHR 0xA6], ''degrees Celsius''),
     (([CHR 0xC2, CHR 0xB0] @ ''F''), [CHR 0xE5, CHR 0x8D, CHR 0x8E, CHR 0xE6, CHR 0xB0, CHR 0x8F, CHR 0xE5, CHR 0xBA, CHR 0xA6], ''degrees Fahrenheit''),
     ([CHR 0xE2, CHR 0x84, CHR 0x83], [CHR 0xE6, CHR 0x91, CHR 0x84, CHR 0xE6, CHR 0xB0, CHR 0x8F, CHR 0xE5, CHR 0xBA, CHR 0xA6], ''degrees Celsius''),
     ([CHR 0xE2, CHR 0x84, CHR 0x89], [CHR 0xE5, CHR 0x8D, CHR 0x8E, CHR 0xE6, CHR 0xB0, CHR 0x8F, CHR 0xE5, CHR 0xBA, CHR 0xA6], ''degrees Fahrenheit''),
     ((''m'' @ [CHR 0xC2, CHR 0xB2]), [CHR 0xE5, CHR 0xB9, CHR 0xB3, CHR 0xE6, CHR 0x96, CHR 0xB9, CHR 0xE7, CHR 0xB1, CHR 0xB3], ''square meters''),
     ((''km'' @ [CHR 0xC2, CHR 0xB2]), [CHR 0xE5, CHR 0xB9, CHR 0xB3, CHR 0xE6, CHR 0x96, CHR 0xB9, CHR 0xE5, CHR 0x85, CHR 0xAC, CHR 0xE9, CHR 0x87, CHR 0x8C], ''square kilometers''),
     (''m2'', [CHR 0xE5, CHR 0xB9, CHR 0xB3, CHR 0xE6, CHR 0x96, CHR 0xB9, CHR 0xE7, CHR 0xB1, CHR 0xB3], ''square meters''),
     (''km2'', [CHR 0xE5, CHR 0xB9, CHR 0xB3, CHR 0xE6, CHR 0x96, CHR 0xB9, CHR 0xE5, CHR 0x85, CHR 0xAC, CHR 0xE9, CHR 0x87, CHR 0x8C], ''square kilometers''),
     (''km/h'', [CHR 0xE5, CHR 0x85, CHR 0xAC, CHR 0xE9, CHR 0x87, CHR 0x8C, CHR 0xE6, CHR 0xAF, CHR 0x8F, CHR 0xE5, CHR 0xB0, CHR 0x8F, CHR 0xE6, CHR 0x97, CHR 0xB6], ''kilometers per hour''),
     (''m/s'', [CHR 0xE7, CHR 0xB1, CHR 0xB3, CHR 0xE6, CHR 0xAF, CHR 0x8F, CHR 0xE7, CHR 0xA7, CHR 0x92], ''meters per second''),
     (''mph'', [CHR 0xE8, CHR 0x8B, CHR 0xB1, CHR 0xE9, CHR 0x87, CHR 0x8C, CHR 0xE6, CHR 0xAF, CHR 0x8F, CHR 0xE5, CHR 0xB0, CHR 0x8F, CHR 0xE6, CHR 0x97, CHR 0xB6], ''miles per hour''),
     (''KB'', [CHR 0xE5, CHR 0x8D, CHR 0x83, CHR 0xE5, CHR 0xAD, CHR 0x97, CHR 0xE8, CHR 0x8A, CHR 0x82], ''kilobytes''),
     (''MB'', [CHR 0xE5, CHR 0x85, CHR 0x86, CHR 0xE5, CHR 0xAD, CHR 0x97, CHR 0xE8, CHR 0x8A, CHR 0x82], ''megabytes''),
     (''GB'', [CHR 0xE5, CHR 0x90, CHR 0x89, CHR 0xE5, CHR 0xAD, CHR 0x97, CHR 0xE8, CHR 0x8A, CHR 0x82], ''gigabytes''),
     (''TB'', [CHR 0xE5, CHR 0xA4, CHR 0xAA, CHR 0xE5, CHR 0xAD, CHR 0x97, CHR 0xE8, CHR 0x8A, CHR 0x82], ''terabytes''),
     (''Mbps'', [CHR 0xE5, CHR 0x85, CHR 0x86, CHR 0xE6, CHR 0xAF, CHR 0x94, CHR 0xE7, CHR 0x89, CHR 0xB9, CHR 0xE6, CHR 0xAF, CHR 0x8F, CHR 0xE7, CHR 0xA7, CHR 0x92], ''megabits per second''),
     (''Gbps'', [CHR 0xE5, CHR 0x90, CHR 0x89, CHR 0xE6, CHR 0xAF, CHR 0x94, CHR 0xE7, CHR 0x89, CHR 0xB9, CHR 0xE6, CHR 0xAF, CHR 0x8F, CHR 0xE7, CHR 0xA7, CHR 0x92], ''gigabits per second'')]"

definition CURRENCY_SYMBOLS :: "(string \<times> string \<times> string) list" where
  "CURRENCY_SYMBOLS =
    [([CHR 0xC2, CHR 0xA5], [CHR 0xE5, CHR 0x85, CHR 0x83], ''yuan''),
     ([CHR 0xEF, CHR 0xBF, CHR 0xA5], [CHR 0xE5, CHR 0x85, CHR 0x83], ''yuan''),
     (''$'', [CHR 0xE7, CHR 0xBE, CHR 0x8E, CHR 0xE5, CHR 0x85, CHR 0x83], ''dollars''),
     ([CHR 0xE2, CHR 0x82, CHR 0xAC], [CHR 0xE6, CHR 0xAC, CHR 0xA7, CHR 0xE5, CHR 0x85, CHR 0x83], ''euros''),
     ([CHR 0xC2, CHR 0xA3], [CHR 0xE8, CHR 0x8B, CHR 0xB1, CHR 0xE9, CHR 0x95, CHR 0x91], ''pounds''),
     ([CHR 0xE2, CHR 0x82, CHR 0xA9], [CHR 0xE9, CHR 0x9F, CHR 0xA9, CHR 0xE5, CHR 0x85, CHR 0x83], ''won''),
     ([CHR 0xE2, CHR 0x82, CHR 0xB9], [CHR 0xE5, CHR 0x8D, CHR 0xA2, CHR 0xE6, CHR 0xAF, CHR 0x94], ''rupees'')]"

definition CURRENCY_SUFFIXES :: "(string \<times> string \<times> string) list" where
  "CURRENCY_SUFFIXES =
    [([CHR 0xE5, CHR 0x85, CHR 0x83], [CHR 0xE5, CHR 0x85, CHR 0x83], ''yuan''),
     ([CHR 0xE5, CHR 0x9D, CHR 0x97], [CHR 0xE5, CHR 0x9D, CHR 0x97], ''yuan''),
     ([CHR 0xE5, CHR 0x9D, CHR 0x97, CHR 0xE9, CHR 0x92, CHR 0xB1], [CHR 0xE5, CHR 0x9D, CHR 0x97, CHR 0xE9, CHR 0x92, CHR 0xB1], ''yuan''),
     ([CHR 0xE7, CHR 0xBE, CHR 0x8E, CHR 0xE5, CHR 0x85, CHR 0x83], [CHR 0xE7, CHR 0xBE, CHR 0x8E, CHR 0xE5, CHR 0x85, CHR 0x83], ''US dollars''),
     ([CHR 0xE7, CHR 0xBE, CHR 0x8E, CHR 0xE9, CHR 0x87, CHR 0x91], [CHR 0xE7, CHR 0xBE, CHR 0x8E, CHR 0xE9, CHR 0x87, CHR 0x91], ''US dollars''),
     ([CHR 0xE4, CHR 0xBA, CHR 0xBA, CHR 0xE6, CHR 0xB0, CHR 0x91, CHR 0xE5, CHR 0xB8, CHR 0x81], [CHR 0xE4, CHR 0xBA, CHR 0xBA, CHR 0xE6, CHR 0xB0, CHR 0x91, CHR 0xE5, CHR 0xB8, CHR 0x81], ''RMB'')]"

section \<open>Text normalizer: context detection\<close>

text \<open>
  \<open>detectLanguage\<close> counts Chinese characters and English letters among the characters
  with index from \<open>pos - 10\<close> to \<open>pos + 10\<close>; a tie reads Chinese.
\<close>

definition detectLanguage :: "string \<Rightarrow> nat \<Rightarrow> Language" where
  "detectLanguage text pos =
     (let chars = splitUtf8 text;
          start = nat (max 0 (i32 (int pos) - 10));
          end_pos = nat (i32 (int (min (length chars) (pos + 10))));
          around = take (end_pos - start) (drop start chars);
          chinese_count = length (filter isChineseChar around);
          english_count = length (filter (\<lambda>c. \<not> isChineseChar c \<and> isEnglishLetter c) around)
      in if chinese_count > english_count then ZH
         else if english_count > chinese_count then EN
         else ZH)"

definition effective :: "Language \<Rightarrow> string \<Rightarrow> nat \<Rightarrow> Language" where
  "effective lang text pos = (if lang = AUTO then detectLanguage text pos else lang)"

definition isPhoneNumber :: "string \<Rightarrow> bool" where
  "isPhoneNumber num =
     (let digits = filter isdigit num in
      if length digits = 11 \<and> digits ! 0 = CHR ''1'' \<and>
         byte (digits ! 1) \<ge> 51 \<and> byte (digits ! 1) \<le> 57
      then True
      else if 7 \<le> length digits \<and> length digits \<le> 12 \<and>
              (length digits = 11 \<or> length digits = 12) \<and>
              (take 3 digits = ''010'' \<or> take 3 digits = ''021'' \<or>
               take 3 digits = ''020'' \<or> take 3 digits = ''025'')
      then True
      else False)"

text \<open>
  A run of four digits between 1000 and 2999 is a year only when the character after it
  is U+5E74; every other run without a point that is not a phone number is a cardinal.
\<close>

definition detectNumberType :: "string \<Rightarrow> nat \<Rightarrow> nat \<Rightarrow> norm_failure + NumberType" where
  "detectNumberType text pos len =
     (let num = take len (drop pos text) in
      if CHR ''.'' \<in> set num then Inr DECIMAL
      else if isPhoneNumber num then Inr PHONE
      else if len = 4
      then fbind (stoi num) (\<lambda>n.
             if 1000 \<le> n \<and> n \<le> 2999 \<and> pos + len < length text \<and>
                (let chars = splitUtf8 (take 6 (drop (pos + len) text))
                 in chars \<noteq> [] \<and> hd chars = [CHR 0xE5, CHR 0xB9, CHR 0xB4])
             then Inr YEAR else Inr CARDINAL)
      else Inr CARDINAL)"

section \<open>Text normalizer: the passes\<close>

text \<open>
  A pass walks the matches of its regular expression from left to right, as the
  \<open>sregex_iterator\<close> loop does: the text before a match is copied, the match is replaced,
  and the search goes on behind it. The replacement gets the position of the match, its
  groups and its text. Every expression of the normalizer consumes a digit, so that a
  match is never empty; the fuel is the length of the text.
\<close>

definition cap :: "captures \<Rightarrow> nat \<Rightarrow> string" where
  "cap caps k = (case map_of caps k of None \<Rightarrow> [] | Some s \<Rightarrow> s)"

fun replace_matches ::
  "nat \<Rightarrow> regex \<Rightarrow> (nat \<Rightarrow> captures \<Rightarrow> string \<Rightarrow> norm_failure + string) \<Rightarrow> nat
     \<Rightarrow> char option \<Rightarrow> string \<Rightarrow> norm_failure + string" where
  "replace_matches 0 r f pos prev rest = Inr rest"
| "replace_matches (Suc fuel) r f pos prev rest =
     (case regex_search r prev rest of
        None \<Rightarrow> Inr rest
      | Some (skipped, caps, p1, r1) \<Rightarrow>
          (let here = pos + length skipped;
               matched = take (length rest - length skipped - length r1)
                           (drop (length skipped) rest)
           in if matched = [] then Inr rest
              else fbind (f here caps matched) (\<lambda>replacement.
                     fbind (replace_matches fuel r f (here + length matched) p1 r1) (\<lambda>behind.
                       Inr (skipped @ replacement @ behind)))))"

definition regex_replace ::
  "regex \<Rightarrow> (nat \<Rightarrow> captures \<Rightarrow> string \<Rightarrow> norm_failure + string) \<Rightarrow> string
     \<Rightarrow> norm_failure + string" where
  "regex_replace r f text = replace_matches (Suc (length text)) r f 0 None text"

definition dot :: regex where
  "dot = OneOf ''.''"

definition space_class :: "char list" where
  "space_class = [CHR 0x20, CHR 0x09, CHR 0x0A, CHR 0x0B, CHR 0x0C, CHR 0x0D]"

text \<open>\<open>(\d+\.?\d*)\<close>, the number in front of a percent sign or a unit.\<close>

definition plain_number :: regex where
  "plain_number = Seq (one_or_more digit) (Seq (Opt dot) (Star digit))"

definition amount_words :: "string \<Rightarrow> Language \<Rightarrow> norm_failure + string" where
  "amount_words num_str eff_lang =
     (if CHR ''.'' \<in> set num_str then decimalToWords num_str eff_lang
      else fbind (stoll num_str) (\<lambda>n. numberToWords n eff_lang))"

subsection \<open>Dates and times\<close>

text \<open>
  The patterns are byte strings: in \<open>[-/Y]\<close> with \<open>Y\<close> the three bytes of U+5E74 the class
  holds each byte on its own, and the \<open>?\<close> after U+65E5 binds its last byte.
\<close>

definition date_regex :: regex where
  "date_regex =
     Seq (Group 1 (repeat_n 4 digit))
    (Seq (OneOf (''-/'' @ [CHR 0xE5, CHR 0xB9, CHR 0xB4]))
    (Seq (Group 2 (repeat_between 1 2 digit))
    (Seq (OneOf (''-/'' @ [CHR 0xE6, CHR 0x9C, CHR 0x88]))
    (Seq (Group 3 (repeat_between 1 2 digit))
    (Seq (lit (butlast [CHR 0xE6, CHR 0x97, CHR 0xA5])) (Opt (OneOf [last [CHR 0xE6, CHR 0x97, CHR 0xA5]])))))))"

definition time_regex :: regex where
  "time_regex =
     Seq (Group 1 (repeat_between 1 2 digit))
    (Seq (OneOf '':'')
    (Seq (Group 2 (repeat_n 2 digit))
         (Opt (Seq (OneOf '':'') (Group 3 (repeat_n 2 digit))))))"

definition year_regex :: regex where
  "year_regex = Seq (Group 1 (repeat_n 4 digit)) (lit [CHR 0xE5, CHR 0xB9, CHR 0xB4])"

definition date_words :: "string \<Rightarrow> Language \<Rightarrow> nat \<Rightarrow> captures \<Rightarrow> string \<Rightarrow> norm_failure + string" where
  "date_words text lang pos caps matched =
     fbind (stoi (cap caps 1)) (\<lambda>year.
     fbind (stoi (cap caps 2)) (\<lambda>month.
     fbind (stoi (cap caps 3)) (\<lambda>day.
       if effective lang text pos = EN
       then fbind (table_at ENGLISH_MONTHS month) (\<lambda>month_name.
            fbind (ordinalToWords day EN) (\<lambda>day_words.
            fbind (yearToWords year EN) (\<lambda>year_words.
              Inr (month_name @ '' '' @ day_words @ '', '' @ year_words))))
       else fbind (yearToWords year ZH) (\<lambda>year_words.
            fbind (intToChineseReading month) (\<lambda>month_words.
            fbind (intToChineseReading day) (\<lambda>day_words.
              Inr (year_words @ [CHR 0xE5, CHR 0xB9, CHR 0xB4] @ month_words @
                   [CHR 0xE6, CHR 0x9C, CHR 0x88] @ day_words @
                   [CHR 0xE6, CHR 0x97, CHR 0xA5])))))))"

definition time_words :: "string \<Rightarrow> Language \<Rightarrow> nat \<Rightarrow> captures \<Rightarrow> string \<Rightarrow> norm_failure + string" where
  "time_words text lang pos caps matched =
     fbind (stoi (cap caps 1)) (\<lambda>hour.
     fbind (stoi (cap caps 2)) (\<lambda>minute.
     fbind (if map_of caps 3 \<noteq> None then stoi (cap caps 3) else Inr (- 1)) (\<lambda>second.
       if effective lang text pos = EN
       then (let period = (if hour \<ge> 12 then ''PM'' else ''AM'');
                 hour12 = (if c_mod hour 12 = 0 then 12 else c_mod hour 12)
             in fbind (numberToWords hour12 EN) (\<lambda>hour_words.
                fbind (if minute = 0 then Inr (hour_words @ '' '' @ period)
                       else fbind (numberToWords minute EN) (\<lambda>minute_words.
                              Inr (hour_words @ '' '' @ minute_words @ '' '' @ period)))
                  (\<lambda>clock.
                     if second \<ge> 0
                     then fbind (numberToWords second EN) (\<lambda>second_words.
                            Inr (clock @ '' and '' @ second_words @ '' seconds''))
                     else Inr clock)))
       else fbind (intToChineseReading hour) (\<lambda>hour_words.
            fbind (if minute > 0
                   then fbind (intToChineseReading minute) (\<lambda>minute_words.
                          Inr (hour_words @ [CHR 0xE7, CHR 0x82, CHR 0xB9] @ minute_words @
                               [CHR 0xE5, CHR 0x88, CHR 0x86]))
                   else Inr (hour_words @ [CHR 0xE7, CHR 0x82, CHR 0xB9]))
              (\<lambda>clock.
                 if second \<ge> 0
                 then fbind (intToChineseReading second) (\<lambda>second_words.
                        Inr (clock @ second_words @ [CHR 0xE7, CHR 0xA7, CHR 0x92]))
                 else Inr clock)))))"

definition year_words :: "string \<Rightarrow> Language \<Rightarrow> nat \<Rightarrow> captures \<Rightarrow> string \<Rightarrow> norm_failure + string" where
  "year_words text lang pos caps matched =
     fbind (stoi (cap caps 1)) (\<lambda>year.
     fbind (yearToWords year (effective lang text pos)) (\<lambda>w.
       Inr (w @ (if effective lang text pos = EN then [] else [CHR 0xE5, CHR 0xB9, CHR 0xB4]))))"

definition normalizeDateTime :: "string \<Rightarrow> Language \<Rightarrow> norm_failure + string" where
  "normalizeDateTime text lang =
     fbind (regex_replace date_regex (date_words text lang) text) (\<lambda>dated.
     fbind (regex_replace time_regex (time_words dated lang) dated) (\<lambda>timed.
       regex_replace year_regex (year_words timed lang) timed))"

subsection \<open>Currency\<close>

fun scan_amount :: "string list \<Rightarrow> string \<Rightarrow> bool \<Rightarrow> string \<times> string list" where
  "scan_amount [] num_str has_decimal = (num_str, [])"
| "scan_amount (c # cs) num_str has_decimal =
     (if isDigit c then scan_amount cs (num_str @ c) has_decimal
      else if c = ''.'' \<and> \<not> has_decimal then scan_amount cs (num_str @ c) True
      else if c = '','' \<or> c = [CHR 0xEF, CHR 0xBC, CHR 0x8C] then scan_amount cs num_str has_decimal
      else (num_str, c # cs))"

lemma scan_amount_length: "length (snd (scan_amount cs num_str has_decimal)) \<le> length cs"
  by (induction cs arbitrary: num_str has_decimal) (auto intro: le_SucI)

function currency_symbols ::
  "string \<Rightarrow> Language \<Rightarrow> nat \<Rightarrow> string list \<Rightarrow> norm_failure + string" where
  "currency_symbols text lang i [] = Inr []"
| "currency_symbols text lang i (ch # rest) =
     (case map_of CURRENCY_SYMBOLS ch of
        None \<Rightarrow> fbind (currency_symbols text lang (i + 1) rest) (\<lambda>behind. Inr (ch @ behind))
      | Some names \<Rightarrow>
          (if fst (scan_amount rest [] False) \<noteq> []
           then fbind (amount_words (fst (scan_amount rest [] False)) (effective lang text i))
                  (\<lambda>amount.
                fbind (currency_symbols text lang
                         (i + 1 + (length rest - length (snd (scan_amount rest [] False))))
                         (snd (scan_amount rest [] False))) (\<lambda>behind.
                  Inr ((if effective lang text i = EN then amount @ '' '' @ snd names
                        else amount @ fst names) @ behind)))
           else fbind (currency_symbols text lang (i + 1) rest) (\<lambda>behind. Inr (ch @ behind))))"
  by pat_completeness auto
termination
  by (relation "measure (\<lambda>(text, lang, i, chars). length chars)")
     (auto simp: scan_amount_length le_imp_less_Suc)

definition currency_suffix_regex :: regex where
  "currency_suffix_regex =
     Seq (Group 1 (Seq (one_or_more digit) (Opt (Seq dot (one_or_more digit)))))
    (Seq (Star (OneOf space_class))
         (Group 2 (Alt (lit [CHR 0xE5, CHR 0x85, CHR 0x83]) (Alt (lit [CHR 0xE5, CHR 0x9D, CHR 0x97]) (Alt (lit [CHR 0xE5, CHR 0x9D, CHR 0x97, CHR 0xE9, CHR 0x92, CHR 0xB1])
                  (Alt (lit [CHR 0xE7, CHR 0xBE, CHR 0x8E, CHR 0xE5, CHR 0x85, CHR 0x83]) (Alt (lit [CHR 0xE7, CHR 0xBE, CHR 0x8E, CHR 0xE9, CHR 0x87, CHR 0x91]) (lit [CHR 0xE4, CHR 0xBA, CHR 0xBA, CHR 0xE6, CHR 0xB0, CHR 0x91, CHR 0xE5, CHR 0xB8, CHR 0x81]))))))))"

definition suffix_words :: "string \<Rightarrow> Language \<Rightarrow> nat \<Rightarrow> captures \<Rightarrow> string \<Rightarrow> norm_failure + string" where
  "suffix_words text lang pos caps matched =
     fbind (amount_words (cap caps 1) (effective lang text pos)) (\<lambda>amount.
       case map_of CURRENCY_SUFFIXES (cap caps 2) of
         Some names \<Rightarrow> Inr (if effective lang text pos = EN then amount @ '' '' @ snd names
                            else amount @ fst names)
       | None \<Rightarrow> Inr (amount @ cap caps 2))"

definition normalizeCurrency :: "string \<Rightarrow> Language \<Rightarrow> norm_failure + string" where
  "normalizeCurrency text lang =
     fbind (currency_symbols text lang 0 (splitUtf8 text)) (\<lambda>temp.
       regex_replace currency_suffix_regex (suffix_words temp lang) temp)"

subsection \<open>Phone numbers, percentages, units\<close>

definition phone_regex :: regex where
  "phone_regex =
     Alt (Seq WordBoundary (Seq (Group 1
            (Seq (OneOf ''1'') (Seq (OneOf ''3456789'') (repeat_n 9 digit)))) WordBoundary))
    (Alt (Seq WordBoundary (Seq (Group 2
            (Seq (OneOf ''1'') (Seq (OneOf ''3456789'') (Seq digit
            (Seq (Opt (OneOf (''-'' @ space_class))) (Seq (repeat_n 4 digit)
            (Seq (Opt (OneOf (''-'' @ space_class))) (repeat_n 4 digit)))))))) WordBoundary))
         (Seq WordBoundary (Seq (Group 3
            (Seq (repeat_between 3 4 digit) (Seq (Opt (OneOf (''-'' @ space_class)))
                 (repeat_between 7 8 digit)))) WordBoundary)))"

definition phone_words :: "string \<Rightarrow> Language \<Rightarrow> nat \<Rightarrow> captures \<Rightarrow> string \<Rightarrow> norm_failure + string" where
  "phone_words text lang pos caps matched =
     Inr (numberToDigits (filter isdigit matched) (effective lang text pos))"

definition normalizePhoneNumbers :: "string \<Rightarrow> Language \<Rightarrow> norm_failure + string" where
  "normalizePhoneNumbers text lang = regex_replace phone_regex (phone_words text lang) text"

definition percent_regex :: regex where
  "percent_regex = Seq (Group 1 plain_number) (OneOf ''%'')"

definition percent_words :: "string \<Rightarrow> Language \<Rightarrow> nat \<Rightarrow> captures \<Rightarrow> string \<Rightarrow> norm_failure + string" where
  "percent_words text lang pos caps matched =
     fbind (amount_words (cap caps 1) (effective lang text pos)) (\<lambda>amount.
       Inr (if effective lang text pos = EN then amount @ '' percent''
            else [CHR 0xE7, CHR 0x99, CHR 0xBE, CHR 0xE5, CHR 0x88, CHR 0x86, CHR 0xE4, CHR 0xB9, CHR 0x8B] @ amount))"

definition normalizePercentages :: "string \<Rightarrow> Language \<Rightarrow> norm_failure + string" where
  "normalizePercentages text lang = regex_replace percent_regex (percent_words text lang) text"

text \<open>
  The units are tried longest first. \<open>std::sort\<close> on the entries of the
  \<open>unordered_map\<close> leaves the order of units of equal length open; the model keeps the
  order of the table among them.
\<close>

definition sorted_units :: "(string \<times> string \<times> string) list" where
  "sorted_units = sort_key (\<lambda>(unit, names). - int (length unit)) UNITS"

definition unit_words ::
  "string \<times> string \<Rightarrow> string \<Rightarrow> Language \<Rightarrow> nat \<Rightarrow> captures \<Rightarrow> string \<Rightarrow> norm_failure + string" where
  "unit_words names text lang pos caps matched =
     fbind (amount_words (cap caps 1) (effective lang text pos)) (\<lambda>amount.
       Inr (if effective lang text pos = EN then amount @ '' '' @ snd names
            else amount @ fst names))"

fun units_loop :: "(string \<times> string \<times> string) list \<Rightarrow> Language \<Rightarrow> string \<Rightarrow> norm_failure + string" where
  "units_loop [] lang result = Inr result"
| "units_loop ((unit, names) # units) lang result =
     fbind (regex_replace (Seq (Group 1 plain_number) (Group 2 (lit unit)))
              (unit_words names result lang) result)
       (units_loop units lang)"

definition normalizeUnits :: "string \<Rightarrow> Language \<Rightarrow> norm_failure + string" where
  "normalizeUnits text lang = units_loop sorted_units lang text"

subsection \<open>Operators\<close>

definition operator_words :: "string \<times> string \<Rightarrow> Language \<Rightarrow> string" where
  "operator_words names eff_lang =
     (if eff_lang = EN then '' '' @ snd names @ '' '' else fst names)"

definition formula_char ::
  "string \<Rightarrow> Language \<Rightarrow> nat \<Rightarrow> string option \<Rightarrow> string \<Rightarrow> string option \<Rightarrow> string" where
  "formula_char text lang i prev ch nxt =
     (case map_of MATH_OPERATORS ch of
        None \<Rightarrow> ch
      | Some names \<Rightarrow>
          (let is_negative =
                 ((ch = ''-'' \<or> ch = [CHR 0xE2, CHR 0x88, CHR 0x92]) \<and>
                  (case nxt of None \<Rightarrow> False | Some n \<Rightarrow> isDigit n) \<and>
                  (case prev of
                     None \<Rightarrow> True
                   | Some p \<Rightarrow> map_of MATH_OPERATORS p \<noteq> None \<or> p = ''('' \<or>
                               p = [CHR 0xEF, CHR 0xBC, CHR 0x88] \<or> p = '' ''))
           in if is_negative
              then (if effective lang text i = EN then ''negative '' else [CHR 0xE8, CHR 0xB4, CHR 0x9F])
              else operator_words names (effective lang text i)))"

fun formulas_loop :: "string \<Rightarrow> Language \<Rightarrow> nat \<Rightarrow> string option \<Rightarrow> string list \<Rightarrow> string" where
  "formulas_loop text lang i prev [] = []"
| "formulas_loop text lang i prev [ch] = formula_char text lang i prev ch None"
| "formulas_loop text lang i prev (ch # nxt # rest) =
     (case map_of MATH_OPERATORS (ch @ nxt) of
        Some names \<Rightarrow>
          operator_words names (effective lang text i)
          @ formulas_loop text lang (i + 2) (Some nxt) rest
      | None \<Rightarrow>
          formula_char text lang i prev ch (Some nxt)
          @ formulas_loop text lang (i + 1) (Some ch) (nxt # rest))"

definition normalizeFormulas :: "string \<Rightarrow> Language \<Rightarrow> string" where
  "normalizeFormulas text lang = formulas_loop text lang 0 None (splitUtf8 text)"

subsection \<open>Numbers\<close>

definition num_regex :: regex where
  "num_regex =
     Group 1 (Seq (one_or_more digit) (Seq (Opt dot) (Seq (Star digit)
       (Opt (Seq (OneOf ''eE'') (Seq (Opt (OneOf ''+-'')) (one_or_more digit)))))))"

definition is_exponent_mark :: "char \<Rightarrow> bool" where
  "is_exponent_mark c = (c = CHR ''e'' \<or> c = CHR ''E'')"

definition cardinal_words :: "string \<Rightarrow> Language \<Rightarrow> norm_failure + string" where
  "cardinal_words num_str eff_lang =
     (if \<exists>c \<in> set num_str. is_exponent_mark c
      then (let mantissa = takeWhile (\<lambda>c. \<not> is_exponent_mark c) num_str;
                exponent = tl (dropWhile (\<lambda>c. \<not> is_exponent_mark c) num_str)
            in fbind (decimalToWords mantissa eff_lang) (\<lambda>m.
               fbind (stoll exponent) (\<lambda>e.
               fbind (numberToWords e eff_lang) (\<lambda>power.
                 Inr (if eff_lang = EN
                      then m @ '' times ten to the power of '' @ power
                      else m @ [CHR 0xE4, CHR 0xB9, CHR 0x98, CHR 0xE4, CHR 0xBB, CHR 0xA5,
                                CHR 0xE5, CHR 0x8D, CHR 0x81, CHR 0xE7, CHR 0x9A, CHR 0x84] @
                           power @ [CHR 0xE6, CHR 0xAC, CHR 0xA1, CHR 0xE6, CHR 0x96, CHR 0xB9])))))
      else if CHR ''.'' \<in> set num_str then decimalToWords num_str eff_lang
      else fbind (stoll num_str) (\<lambda>num. numberToWords num eff_lang))"

definition number_words :: "string \<Rightarrow> Language \<Rightarrow> nat \<Rightarrow> captures \<Rightarrow> string \<Rightarrow> norm_failure + string" where
  "number_words text lang pos caps matched =
     (let num_str = cap caps 1; eff_lang = effective lang text pos in
      fbind (detectNumberType text pos (length num_str)) (\<lambda>type.
        case type of
          DECIMAL \<Rightarrow> decimalToWords num_str eff_lang
        | YEAR \<Rightarrow> fbind (stoi num_str) (\<lambda>year. yearToWords year eff_lang)
        | DIGIT \<Rightarrow> Inr (numberToDigits num_str eff_lang)
        | PHONE \<Rightarrow> Inr (numberToDigits num_str eff_lang)
        | _ \<Rightarrow> cardinal_words num_str eff_lang))"

definition normalizeNumbers :: "string \<Rightarrow> Language \<Rightarrow> norm_failure + string" where
  "normalizeNumbers text lang = regex_replace num_regex (number_words text lang) text"

subsection \<open>The normalizer\<close>

text \<open>
  \<open>normalize\<close> runs the passes in their fixed order; \<open>normalizeText\<close> calls it on the
  static normalizer, whose default language stays \<open>AUTO\<close>.
\<close>

definition normalize :: "Language \<Rightarrow> string \<Rightarrow> Language \<Rightarrow> norm_failure + string" where
  "normalize default_lang text lang =
     (if text = [] then Inr text
      else (let effective_lang = (if lang = AUTO then default_lang else lang) in
            fbind (normalizeDateTime text effective_lang) (\<lambda>r1.
            fbind (normalizeCurrency r1 effective_lang) (\<lambda>r2.
            fbind (normalizePhoneNumbers r2 effective_lang) (\<lambda>r3.
            fbind (normalizePercentages r3 effective_lang) (\<lambda>r4.
            fbind (normalizeUnits r4 effective_lang) (\<lambda>r5.
              normalizeNumbers (normalizeFormulas r5 effective_lang) effective_lang)))))))"

definition text_normalizeText :: "string \<Rightarrow> Language \<Rightarrow> norm_failure + string" where
  "text_normalizeText text lang = normalize AUTO text lang"

section \<open>The year in an English sentence\<close>

fun contains :: "string \<Rightarrow> string \<Rightarrow> bool" where
  "contains [] pat = (pat = [])"
| "contains (c # cs) pat = (take (length pat) (c # cs) = pat \<or> contains cs pat)"

lemma year_sentence_normalized:
  "text_normalizeText ''The year 2024 was good.'' EN =
     Inr ''The year two thousand twenty-four was good.''"
  by code_simp

lemma year_mark_normalized:
  "normalizeDateTime (''2024'' @ [CHR 0xE5, CHR 0xB9, CHR 0xB4]) EN = Inr ''twenty twenty-four''"
  by code_simp

text \<open>
  C2 (as amended). The English normalization of \<open>The year 2024 was good.\<close> is
  \<open>The year two thousand twenty-four was good.\<close>: a run of four digits that U+5E74 does
  not follow is a cardinal. The year reading \<open>twenty twenty-four\<close> is what \<open>yearToWords\<close>
  gives for 2024 and what the date pass writes for 2024 followed by U+5E74.
\<close>

theorem year_sentence_is_cardinal:
  "text_normalizeText ''The year 2024 was good.'' EN =
     Inr ''The year two thousand twenty-four was good.'' \<and>
   detectNumberType ''The year 2024 was good.'' 9 4 = Inr CARDINAL \<and>
   yearToWords 2024 EN = Inr ''twenty twenty-four'' \<and>
   normalizeDateTime (''2024'' @ [CHR 0xE5, CHR 0xB9, CHR 0xB4]) EN = Inr ''twenty twenty-four''"
proof -
  have "detectNumberType ''The year 2024 was good.'' 9 4 = Inr CARDINAL" by code_simp
  moreover have "yearToWords 2024 EN = Inr ''twenty twenty-four''" by code_simp
  ultimately show ?thesis using year_sentence_normalized year_mark_normalized by simp
qed

text \<open>The claim as stated fails: the normalized sentence does not contain the year
  reading.\<close>

theorem year_sentence_counterexample:
  "text_normalizeText ''The year 2024 was good.'' EN =
     Inr ''The year two thousand twenty-four was good.'' \<and>
   \<not> contains ''The year two thousand twenty-four was good.'' ''twenty twenty-four''"
proof -
  have "\<not> contains ''The year two thousand twenty-four was good.'' ''twenty twenty-four''"
    by code_simp
  then show ?thesis using year_sentence_normalized by simp
qed

section \<open>Kokoro phonemizer\<close>

definition PAD_TOKEN_ID :: int where
  "PAD_TOKEN_ID = 0"

definition MAX_TOKEN_LENGTH :: int where
  "MAX_TOKEN_LENGTH = 512"

text \<open>The 114 entries of \<open>initVocab\<close>, each token as its UTF-8 bytes, in source order.\<close>

definition vocab_entries :: "(string \<times> int) list" where
  "vocab_entries = [
    ([CHR 0x3B], 1), ([CHR 0x3A], 2), ([CHR 0x2C], 3), ([CHR 0x2E], 4), ([CHR 0x21], 5),
     ([CHR 0x3F], 6), ([CHR 0xE2, CHR 0x80, CHR 0x94], 9),
     ([CHR 0xE2, CHR 0x80, CHR 0xA6], 10), ([CHR 0x22], 11), ([CHR 0x28], 12),
     ([CHR 0x29], 13), ([CHR 0xE2, CHR 0x80, CHR 0x9C], 14),
     ([CHR 0xE2, CHR 0x80, CHR 0x9D], 15), ([CHR 0x20], 16), ([CHR 0xCC, CHR 0x83], 17),
     ([CHR 0xCA, CHR 0xA3], 18), ([CHR 0xCA, CHR 0xA5], 19), ([CHR 0xCA, CHR 0xA6], 20),
     ([CHR 0xCA, CHR 0xA8], 21), ([CHR 0xE1, CHR 0xB5, CHR 0x9D], 22),
     ([CHR 0xEA, CHR 0xAD, CHR 0xA7], 23), (''A'', 24), (''I'', 25), (''O'', 31),
     (''Q'', 33), (''S'', 35), (''T'', 36), (''W'', 39), (''Y'', 41),
     ([CHR 0xE1, CHR 0xB5, CHR 0x8A], 42), (''a'', 43), (''b'', 44), (''c'', 45),
     (''d'', 46), (''e'', 47), (''f'', 48), (''h'', 50), (''i'', 51), (''j'', 52),
     (''k'', 53), (''l'', 54), (''m'', 55), (''n'', 56), (''o'', 57), (''p'', 58),
     (''q'', 59), (''r'', 60), (''s'', 61), (''t'', 62), (''u'', 63), (''v'', 64),
     (''w'', 65), (''x'', 66), (''y'', 67), (''z'', 68), ([CHR 0xC9, CHR 0x91], 69),
     ([CHR 0xC9, CHR 0x90], 70), ([CHR 0xC9, CHR 0x92], 71), ([CHR 0xC3, CHR 0xA6], 72),
     ([CHR 0xCE, CHR 0xB2], 75), ([CHR 0xC9, CHR 0x94], 76), ([CHR 0xC9, CHR 0x95], 77),
     ([CHR 0xC3, CHR 0xA7], 78), ([CHR 0xC9, CHR 0x96], 80), ([CHR 0xC3, CHR 0xB0], 81),
     ([CHR 0xCA, CHR 0xA4], 82), ([CHR 0xC9, CHR 0x99], 83), ([CHR 0xC9, CHR 0x9A], 85),
     ([CHR 0xC9, CHR 0x9B], 86), ([CHR 0xC9, CHR 0x9C], 87), ([CHR 0xC9, CHR 0x9F], 90),
     ([CHR 0xC9, CHR 0xA1], 92), ([CHR 0xC9, CHR 0xA5], 99), ([CHR 0xC9, CHR 0xA8], 101),
     ([CHR 0xC9, CHR 0xAA], 102), ([CHR 0xCA, CHR 0x9D], 103), ([CHR 0xC9, CHR 0xAF], 110),
     ([CHR 0xC9, CHR 0xB0], 111), ([CHR 0xC5, CHR 0x8B], 112), ([CHR 0xC9, CHR 0xB3], 113),
     ([CHR 0xC9, CHR 0xB2], 114), ([CHR 0xC9, CHR 0xB4], 115), ([CHR 0xC3, CHR 0xB8], 116),
     ([CHR 0xC9, CHR 0xB8], 118), ([CHR 0xCE, CHR 0xB8], 119), ([CHR 0xC5, CHR 0x93], 120),
     ([CHR 0xC9, CHR 0xB9], 123), ([CHR 0xC9, CHR 0xBE], 125), ([CHR 0xC9, CHR 0xBB], 126),
     ([CHR 0xCA, CHR 0x81], 128), ([CHR 0xC9, CHR 0xBD], 129), ([CHR 0xCA, CHR 0x82], 130),
     ([CHR 0xCA, CHR 0x83], 131), ([CHR 0xCA, CHR 0x88], 132), ([CHR 0xCA, CHR 0xA7], 133),
     ([CHR 0xCA, CHR 0x8A], 135), ([CHR 0xCA, CHR 0x8B], 136), ([CHR 0xCA, CHR 0x8C], 138),
     ([CHR 0xC9, CHR 0xA3], 139), ([CHR 0xC9, CHR 0xA4], 140), ([CHR 0xCF, CHR 0x87], 142),
     ([CHR 0xCA, CHR 0x8E], 143), ([CHR 0xCA, CHR 0x92], 147), ([CHR 0xCA, CHR 0x94], 148),
     ([CHR 0xCB, CHR 0x88], 156), ([CHR 0xCB, CHR 0x8C], 157), ([CHR 0xCB, CHR 0x90], 158),
     ([CHR 0xCA, CHR 0xB0], 162), ([CHR 0xCA, CHR 0xB2], 164),
     ([CHR 0xE2, CHR 0x86, CHR 0x93], 169), ([CHR 0xE2, CHR 0x86, CHR 0x92], 171),
     ([CHR 0xE2, CHR 0x86, CHR 0x97], 172), ([CHR 0xE2, CHR 0x86, CHR 0x98], 173),
     ([CHR 0xE1, CHR 0xB5, CHR 0xBB], 177)]"

text \<open>\<open>vocab[token] = id\<close> for each entry in turn: a later entry would replace an earlier one.\<close>

definition vocab :: "string \<Rightarrow> int option" where
  "vocab = map_of (rev vocab_entries)"

definition utf8_lead_len :: "char \<Rightarrow> nat" where
  "utf8_lead_len c = (let n = (of_char c :: nat) in
     if 240 \<le> n then 4 else if 224 \<le> n then 3 else if 192 \<le> n then 2 else 1)"

function ipa_loop :: "string \<Rightarrow> nat \<Rightarrow> int list \<Rightarrow> int list" where
  "ipa_loop ipa i ids =
     (if i < length ipa
      then (let char_len = utf8_lead_len (ipa ! i);
                ids' = (if i + char_len \<le> length ipa
                        then (case vocab (take char_len (drop i ipa)) of
                                Some tid \<Rightarrow> ids @ [tid]
                              | None \<Rightarrow> ids)
                        else ids)
            in ipa_loop ipa (i + char_len) ids')
      else ids)"
  by pat_completeness auto
termination
  by (relation "measure (\<lambda>(ipa, i, ids). length ipa - i)") (auto simp: utf8_lead_len_def Let_def)

definition ipaToTokenIds :: "string \<Rightarrow> int list" where
  "ipaToTokenIds ipa = ipa_loop ipa 0 []"

subsection \<open>Pinyin to IPA\<close>

definition initial_to_ipa :: "string \<Rightarrow> string option" where
  "initial_to_ipa = map_of [
     (''b'', ''p''), (''p'', (''p'' @ [CHR 0xCA, CHR 0xB0])),
     (''m'', ''m''), (''f'', ''f''),
     (''d'', ''t''), (''t'', (''t'' @ [CHR 0xCA, CHR 0xB0])),
     (''n'', ''n''), (''l'', ''l''),
     (''g'', ''k''), (''k'', (''k'' @ [CHR 0xCA, CHR 0xB0])),
     (''h'', ''x''), (''j'', (''t'' @ [CHR 0xC9, CHR 0x95])),
     (''q'', (''t'' @ [CHR 0xC9, CHR 0x95, CHR 0xCA, CHR 0xB0])), (''x'', [CHR 0xC9, CHR 0x95]),
     (''zh'', [CHR 0xCA, CHR 0x88, CHR 0xCA, CHR 0x82]), (''ch'', [CHR 0xCA, CHR 0x88, CHR 0xCA, CHR 0x82, CHR 0xCA, CHR 0xB0]),
     (''sh'', [CHR 0xCA, CHR 0x82]), (''r'', [CHR 0xC9, CHR 0xBB]),
     (''z'', ''ts''), (''c'', (''ts'' @ [CHR 0xCA, CHR 0xB0])),
     (''s'', ''s''), (''y'', ''j''),
     (''w'', ''w'')]"

definition final_to_ipa :: "string \<Rightarrow> string option" where
  "final_to_ipa = map_of [
     (''a'', ''a''), (''ai'', ''ai''),
     (''an'', ''an''), (''ang'', (''a'' @ [CHR 0xC5, CHR 0x8B])),
     (''ao'', ''au''), (''e'', [CHR 0xC9, CHR 0xA4]),
     (''ei'', ''ei''), (''en'', ([CHR 0xC9, CHR 0x99] @ ''n'')),
     (''eng'', [CHR 0xC9, CHR 0x99, CHR 0xC5, CHR 0x8B]), (''er'', [CHR 0xC9, CHR 0x99, CHR 0xC9, CHR 0xBB]),
     (''i'', ''i''), (''ia'', ''ja''),
     (''ian'', (''j'' @ [CHR 0xC9, CHR 0x9B] @ ''n'')), (''iang'', (''ja'' @ [CHR 0xC5, CHR 0x8B])),
     (''iao'', ''jau''), (''ie'', ''je''),
     (''in'', ''in''), (''ing'', (''i'' @ [CHR 0xC5, CHR 0x8B])),
     (''iong'', (''j'' @ [CHR 0xCA, CHR 0x8A, CHR 0xC5, CHR 0x8B])), (''iu'', ''jou''),
     (''o'', ''o''), (''ong'', [CHR 0xCA, CHR 0x8A, CHR 0xC5, CHR 0x8B]),
     (''ou'', ''ou''), (''u'', ''u''),
     (''ua'', ''wa''), (''uai'', ''wai''),
     (''uan'', ''wan''), (''uang'', (''wa'' @ [CHR 0xC5, CHR 0x8B])),
     (''ue'', ([CHR 0xC9, CHR 0xA5] @ ''e'')), (''ui'', ''wei''),
     (''un'', (''w'' @ [CHR 0xC9, CHR 0x99] @ ''n'')), (''uo'', ''wo''),
     (''v'', ''y''), (''ve'', ([CHR 0xC9, CHR 0xA5] @ ''e'')),
     (''van'', ([CHR 0xC9, CHR 0xA5, CHR 0xC9, CHR 0x9B] @ ''n'')), (''vn'', ''yn'')]"

definition initials_ordered :: "string list" where
  "initials_ordered =
     [''zh'', ''ch'', ''sh'', ''b'', ''p'', ''m'', ''f'', ''d'', ''t'', ''n'', ''l'', ''g'', ''k'',
      ''h'', ''j'', ''q'', ''x'', ''r'', ''z'', ''c'', ''s'', ''y'', ''w'']"

text \<open>\<open>PinyinParts\<close>; the member \<open>final_\<close> is the field \<open>final\<close>.\<close>

record PinyinParts =
  initial :: string
  final :: string
  tone :: int

definition parsePinyin :: "string \<Rightarrow> PinyinParts" where
  "parsePinyin pinyin =
     (let parts = \<lparr>initial = [], final = [], tone = 5\<rparr> in
      if pinyin = [] then parts
      else (let toned = (49 \<le> byte (last pinyin) \<and> byte (last pinyin) \<le> 53);
                parts1 = (if toned then parts\<lparr>tone := int (byte (last pinyin)) - 48\<rparr> else parts);
                py = (if toned then butlast pinyin else pinyin)
            in if py = [] then parts1
               else (case find (\<lambda>ini. take (length ini) py = ini) initials_ordered of
                       Some ini \<Rightarrow> parts1\<lparr>initial := ini, final := drop (length ini) py\<rparr>
                     | None \<Rightarrow> parts1\<lparr>final := py\<rparr>)))"

definition toneToArrow :: "int \<Rightarrow> string" where
  "toneToArrow t =
     (if t = 1 then [CHR 0xE2, CHR 0x86, CHR 0x92]
      else if t = 2 then [CHR 0xE2, CHR 0x86, CHR 0x97]
      else if t = 3 then [CHR 0xE2, CHR 0x86, CHR 0x93]
      else if t = 4 then [CHR 0xE2, CHR 0x86, CHR 0x98]
      else [])"

text \<open>\<open>ipa = ini_it->second\<close> when the initial is in the table, else \<open>ipa\<close> stays empty.\<close>

definition initial_ipa :: "string \<Rightarrow> string" where
  "initial_ipa ini = (case initial_to_ipa ini of Some s \<Rightarrow> s | None \<Rightarrow> [])"

definition final_ipa :: "string \<Rightarrow> string" where
  "final_ipa fin =
     (if fin = [] then []
      else (case final_to_ipa fin of
              Some s \<Rightarrow> s
            | None \<Rightarrow> concat (map (\<lambda>c. case final_to_ipa [c] of Some s \<Rightarrow> s | None \<Rightarrow> [c]) fin)))"

definition pinyinToIPA :: "string \<Rightarrow> string" where
  "pinyinToIPA pinyin =
     (let parts = parsePinyin pinyin in
      if final parts = ''i'' \<and> initial parts \<in> set [''zh'', ''ch'', ''sh'', ''r'']
      then initial_ipa (initial parts) @ [CHR 0xC9, CHR 0xBB] @ toneToArrow (tone parts)
      else if final parts = ''i'' \<and> initial parts \<in> set [''z'', ''c'', ''s'']
      then initial_ipa (initial parts) @ [CHR 0xC9, CHR 0xB9] @ toneToArrow (tone parts)
      else (case (if initial parts \<in> set [''j'', ''q'', ''x''] \<and> final parts \<noteq> [] \<and>
                     hd (final parts) = CHR ''u''
                  then final_to_ipa (CHR ''v'' # tl (final parts)) else None) of
              Some fin \<Rightarrow> initial_ipa (initial parts) @ fin @ toneToArrow (tone parts)
            | None \<Rightarrow>
                (if initial parts \<noteq> [] then initial_ipa (initial parts) else []) @
                final_ipa (final parts) @ toneToArrow (tone parts)))"

subsection \<open>English through espeak-ng\<close>

text \<open>
  One round of the loop of \<open>cleanEspeakIPA\<close> at index \<open>i\<close>: \<open>None\<close> is the \<open>break\<close>, otherwise
  the next index, the result so far and \<open>last_was_space\<close>.
\<close>

definition clean_step :: "string \<Rightarrow> nat \<Rightarrow> string \<Rightarrow> bool \<Rightarrow> (nat \<times> string \<times> bool) option" where
  "clean_step ipa i result last_was_space =
     (let c = ipa ! i in
      if c = CHR 0x0A \<or> c = CHR 0x0D then Some (i + 1, result, last_was_space)
      else (let char_len = utf8_lead_len c in
            if i + char_len > length ipa then None
            else (let ch = take char_len (drop i ipa) in
                  if ch = ''.'' then Some (i + char_len, result, last_was_space)
                  else if ch = [CHR 0xE2, CHR 0x80, CHR 0x8B] \<or> ch = [CHR 0xE2, CHR 0x80, CHR 0x8C] \<or>
                          ch = [CHR 0xE2, CHR 0x80, CHR 0x8D] \<or> ch = [CHR 0xEF, CHR 0xBB, CHR 0xBF]
                  then Some (i + char_len, result, last_was_space)
                  else if ch = '' ''
                  then (if \<not> last_was_space \<and> result \<noteq> []
                        then Some (i + char_len, result @ '' '', True)
                        else Some (i + char_len, result, last_was_space))
                  else Some (i + char_len, result @ ch, False))))"

lemma clean_step_advances:
  "clean_step ipa i result last_was_space = Some (i', result', last') \<Longrightarrow> i < i'"
  by (auto simp: clean_step_def Let_def utf8_lead_len_def split: if_splits)

function clean_loop :: "string \<Rightarrow> nat \<Rightarrow> string \<Rightarrow> bool \<Rightarrow> string" where
  "clean_loop ipa i result last_was_space =
     (if i < length ipa
      then (case clean_step ipa i result last_was_space of
              None \<Rightarrow> result
            | Some (i', result', last') \<Rightarrow> clean_loop ipa i' result' last')
      else result)"
  by pat_completeness auto
termination
  by (relation "measure (\<lambda>(ipa, i, result, last_was_space). length ipa - i)")
     (auto dest: clean_step_advances)

definition cleanEspeakIPA :: "string \<Rightarrow> string" where
  "cleanEspeakIPA ipa =
     (let result = clean_loop ipa 0 [] False;
          result1 = (if result \<noteq> [] \<and> last result = CHR '' '' then butlast result else result)
      in if result1 \<noteq> [] \<and> hd result1 = CHR '' '' then tl result1 else result1)"

text \<open>
  The phonemizer's state is whether \<open>initPinyin\<close> has created the converter and whether
  espeak-ng was found. The library and the process it calls are parameters:
  \<open>hanziToPinyin\<close> is the method of cpp-pinyin (with the style and flags of the source),
  each result with its \<open>pinyin\<close> and \<open>error\<close> members; \<open>popen_read\<close> runs a shell command
  and yields what it printed and the exit status of \<open>pclose\<close>, or \<open>None\<close> when \<open>popen\<close>
  fails.
\<close>

record KokoroPhonemizer =
  pinyin_converter :: bool
  espeak_available :: bool

record PinyinRes =
  res_pinyin :: string
  res_error :: bool

record KokoroEnv =
  hanziToPinyin :: "string \<Rightarrow> PinyinRes list"
  popen_read :: "string \<Rightarrow> (string \<times> int) option"
  runInference :: "int list \<Rightarrow> float32 list \<Rightarrow> float32 \<Rightarrow> string + float32 list"
  k_processAudio :: "float32 list \<Rightarrow> float32 list"
  k_elapsed_ms :: int

definition englishToIPA :: "KokoroEnv \<Rightarrow> KokoroPhonemizer \<Rightarrow> string \<Rightarrow> string" where
  "englishToIPA env ph text =
     (if \<not> espeak_available ph then []
      else if text = [] then []
      else (let escaped = replace_all [CHR 0x27] [CHR 0x27, CHR 0x22, CHR 0x27, CHR 0x22, CHR 0x27] text;
                command = ''echo '' @ [CHR 0x27] @ escaped @ [CHR 0x27] @
                          '' | espeak-ng -q --ipa=3 -v en-us''
            in case popen_read env command of
                 None \<Rightarrow> []
               | Some (printed, exit_status) \<Rightarrow>
                   if exit_status \<noteq> 0 \<or> printed = [] then []
                   else convertToGruutEnUs (cleanEspeakIPA printed)))"

subsection \<open>Text to token ids\<close>

text \<open>The IPA of a Chinese run: the results of cpp-pinyin without error, each through
  \<open>pinyinToIPA\<close>.\<close>

definition chinese_ipa :: "KokoroEnv \<Rightarrow> string \<Rightarrow> string" where
  "chinese_ipa env segment =
     concat (map (\<lambda>res. if \<not> res_error res then pinyinToIPA (res_pinyin res) else [])
               (hanziToPinyin env segment))"

definition english_member :: "string \<Rightarrow> bool" where
  "english_member ch = (isEnglishLetter ch \<or> ch = '' '' \<or> ch = [CHR 0x27] \<or> ch = ''-'')"

definition digit_member :: "string \<Rightarrow> bool" where
  "digit_member ch = (isDigit ch \<or> ch = ''.'')"

fun trim_trailing_spaces :: "string \<Rightarrow> string" where
  "trim_trailing_spaces s = rev (dropWhile (\<lambda>c. c = CHR '' '') (rev s))"

definition english_ipa :: "KokoroEnv \<Rightarrow> KokoroPhonemizer \<Rightarrow> string \<Rightarrow> string" where
  "english_ipa env ph segment =
     (let english_segment = trim_trailing_spaces segment in
      if english_segment \<noteq> [] then englishToIPA env ph english_segment else [])"

definition punct_ipa :: "string \<Rightarrow> string" where
  "punct_ipa ch =
     (let mapped0 = mapChinesePunctToAscii ch;
          mapped = (if mapped0 = [] then ch else mapped0)
      in if vocab mapped \<noteq> None then mapped else [])"

text \<open>
  Step 2 of \<open>textToTokenIds\<close>, the walk over the UTF-8 characters from index \<open>i\<close> on: the
  first argument is \<open>chars\<close> from \<open>i\<close>. A Chinese, an English or a digit run is taken as far
  as it goes; a digit run is normalized as Chinese text once more, which can throw.
\<close>

function segment_loop ::
  "KokoroEnv \<Rightarrow> KokoroPhonemizer \<Rightarrow> string list \<Rightarrow> string \<Rightarrow> norm_failure + string" where
  "segment_loop env ph [] combined_ipa = Inr combined_ipa"
| "segment_loop env ph (ch # rest) combined_ipa =
     (if isChineseChar ch
      then segment_loop env ph (dropWhile isChineseChar rest)
             (combined_ipa @ chinese_ipa env (concat (ch # takeWhile isChineseChar rest)))
      else if isEnglishLetter ch
      then segment_loop env ph (dropWhile english_member rest)
             (combined_ipa @ english_ipa env ph (concat (ch # takeWhile english_member rest)))
      else if isDigit ch
      then (case text_normalizeText (concat (ch # takeWhile digit_member rest)) ZH of
              Inl failure \<Rightarrow> Inl failure
            | Inr digit_normalized \<Rightarrow>
                segment_loop env ph (dropWhile digit_member rest)
                  (combined_ipa @ (if containsChinese digit_normalized
                                   then chinese_ipa env digit_normalized else [])))
      else segment_loop env ph rest (combined_ipa @ punct_ipa ch))"
  by pat_completeness auto
termination
  by (relation "measure (\<lambda>(env, ph, chars, combined_ipa). length chars)")
     (auto simp: less_Suc_eq_le length_dropWhile_le)

definition truncate_padded :: "int list \<Rightarrow> int list" where
  "truncate_padded padded =
     (if i32 (int (length padded)) > MAX_TOKEN_LENGTH
      then (let p = take (nat MAX_TOKEN_LENGTH) padded in p[length p - 1 := PAD_TOKEN_ID])
      else padded)"

definition textToTokenIds :: "KokoroEnv \<Rightarrow> KokoroPhonemizer \<Rightarrow> string \<Rightarrow> norm_failure + int list" where
  "textToTokenIds env ph text =
     (if text = [] then Inr []
      else if \<not> pinyin_converter ph then Inr []
      else (case text_normalizeText text ZH of
              Inl failure \<Rightarrow> Inl failure
            | Inr normalized \<Rightarrow>
                (case segment_loop env ph (splitUtf8 normalized) [] of
                   Inl failure \<Rightarrow> Inl failure
                 | Inr combined_ipa \<Rightarrow>
                     if combined_ipa = [] then Inr []
                     else (let ids = ipaToTokenIds combined_ipa;
                               padded = [PAD_TOKEN_ID] @ ids @ [PAD_TOKEN_ID]
                           in Inr (truncate_padded padded)))))"

lemma truncate_padded_props:
  assumes "padded = 0 # ids @ [0]"
  shows "(length (truncate_padded padded) \<le> 512 \<or> 2147483648 \<le> length (truncate_padded padded)) \<and>
         hd (truncate_padded padded) = 0 \<and> last (truncate_padded padded) = 0 \<and>
         truncate_padded padded \<noteq> []"
proof (cases "i32 (int (length padded)) > 512")
  case True
  have "i32 (int (length padded)) \<le> int (length padded)" by (rule i32_le) simp
  with True have len: "512 < length padded" by simp
  let ?p = "take 512 padded"
  have lp: "length ?p = 512" using len by simp
  have t: "truncate_padded padded = ?p[511 := 0]"
    using True lp by (simp add: truncate_padded_def MAX_TOKEN_LENGTH_def PAD_TOKEN_ID_def Let_def)
  have "hd (?p[511 := 0]) = padded ! 0"
    using lp len by (simp add: hd_conv_nth length_greater_0_conv[symmetric] del: length_greater_0_conv)
  then have h: "hd (?p[511 := 0]) = 0" using assms by simp
  have "last (?p[511 := 0]) = (?p[511 := 0]) ! 511"
    using lp by (simp add: last_conv_nth length_greater_0_conv[symmetric] del: length_greater_0_conv)
  then have l: "last (?p[511 := 0]) = 0" using lp by simp
  have n: "length (?p[511 := 0]) = 512" using lp by simp
  then have ne: "?p[511 := 0] \<noteq> []" by (metis length_0_conv zero_neq_numeral)
  have "length (truncate_padded padded) \<le> 512" unfolding t using n by simp
  moreover have "hd (truncate_padded padded) = 0" unfolding t by (rule h)
  moreover have "last (truncate_padded padded) = 0" unfolding t by (rule l)
  moreover have "truncate_padded padded \<noteq> []" unfolding t by (rule ne)
  ultimately show ?thesis by blast
next
  case False
  then have t: "truncate_padded padded = padded"
    by (simp add: truncate_padded_def MAX_TOKEN_LENGTH_def)
  have "length padded \<le> 512 \<or> 2147483648 \<le> length padded"
  proof (cases "length padded < 2147483648")
    case True
    then have "i32 (int (length padded)) = int (length padded)" by (intro i32_id) simp_all
    with False show ?thesis by simp
  next
    case False
    then show ?thesis by simp
  qed
  then show ?thesis using t assms by simp
qed

lemma segment_loop_failure:
  "segment_loop env ph chars combined_ipa = Inl failure
   \<Longrightarrow> \<exists>segment. text_normalizeText segment ZH = Inl failure"
  by (induction env ph chars combined_ipa rule: segment_loop.induct)
     (auto split: if_splits sum.splits)

text \<open>
  C3. Whatever the text, \<open>textToTokenIds\<close> either passes on an exception of the text
  normalizer (thrown on the text or on one of its digit runs) or returns a sequence that
  is empty or starts and ends with the PAD id 0, also after truncation; its length is at
  most 512, unless the padded sequence has \<open>2^31\<close> or more ids, where
  \<open>static_cast<int>(padded.size())\<close> is negative and nothing is cut.
\<close>

theorem textToTokenIds_padded:
  "(case textToTokenIds env ph text of
      Inl failure \<Rightarrow> (\<exists>segment. text_normalizeText segment ZH = Inl failure)
    | Inr ids \<Rightarrow>
        (length ids \<le> 512 \<or> 2147483648 \<le> length ids) \<and>
        (ids \<noteq> [] \<longrightarrow> hd ids = 0 \<and> last ids = 0))"
proof -
  have p: "\<And>ids. (length (truncate_padded (0 # ids @ [0])) \<le> 512 \<or>
                   2147483648 \<le> length (truncate_padded (0 # ids @ [0]))) \<and>
                  hd (truncate_padded (0 # ids @ [0])) = 0 \<and>
                  last (truncate_padded (0 # ids @ [0])) = 0"
    using truncate_padded_props by blast
  show ?thesis
    using p segment_loop_failure
    by (auto simp: textToTokenIds_def PAD_TOKEN_ID_def Let_def split: sum.splits)
qed

text \<open>
  An environment for examples: cpp-pinyin reads U+4F60 U+597D as \<open>ni3 hao3\<close> and nothing
  else, \<open>popen\<close> fails (English gets no phonemes), the model returns one sample of silence
  and post-processing changes nothing.
\<close>

definition ni_hao :: string where
  "ni_hao = [CHR 0xE4, CHR 0xBD, CHR 0xA0, CHR 0xE5, CHR 0xA5, CHR 0xBD]"

definition demo_kokoro_env :: KokoroEnv where
  "demo_kokoro_env =
     \<lparr>hanziToPinyin = (\<lambda>segment. if segment = ni_hao
         then [\<lparr>res_pinyin = ''ni3'', res_error = False\<rparr>,
               \<lparr>res_pinyin = ''hao3'', res_error = False\<rparr>]
         else []),
      popen_read = (\<lambda>command. None),
      runInference = (\<lambda>ids style speed. Inr [Finite 0]),
      k_processAudio = (\<lambda>a. a), k_elapsed_ms = 5\<rparr>"

definition ready_phonemizer :: KokoroPhonemizer where
  "ready_phonemizer = \<lparr>pinyin_converter = True, espeak_available = True\<rparr>"

lemma demo_tokens:
  "textToTokenIds demo_kokoro_env ready_phonemizer ni_hao =
     Inr [0, 56, 51, 169, 66, 43, 63, 169, 0]"
  by code_simp

theorem textToTokenIds_padded_witness:
  "textToTokenIds demo_kokoro_env ready_phonemizer ni_hao =
     Inr [0, 56, 51, 169, 66, 43, 63, 169, 0] \<and>
   length [0, 56, 51, 169, 66, 43, 63, 169, 0 :: int] \<le> 512 \<and>
   hd [0, 56, 51, 169, 66, 43, 63, 169, 0 :: int] = 0 \<and>
   last [0, 56, 51, 169, 66, 43, 63, 169, 0 :: int] = 0"
  using textToTokenIds_padded[of demo_kokoro_env ready_phonemizer ni_hao] demo_tokens
  by simp

section \<open>Backends: state, setters and synthesis\<close>

record TtsConfig =
  voice :: string
  speaker_id :: int
  cfg_sample_rate :: int
  output_sample_rate :: int
  volume :: int
  speech_rate :: float32
  enable_warmup :: bool

text \<open>
  The members of \<open>MatchaBackend\<close>: a member \<open>x_\<close> of the class is the field \<open>m_x\<close>. The
  ONNX sessions, the token map and the mutex are not state of the model; what the
  sessions and the derived class compute enters through \<open>MatchaEnv\<close>. A call that can
  throw a \<open>std::exception\<close> returns \<open>Inl\<close> of its \<open>what()\<close>. The text normalizer is
  not a parameter: \<open>synthesize\<close> calls \<open>text_normalizeText\<close>.
\<close>

record MatchaBackend =
  m_type :: BackendType
  m_config :: TtsConfig
  m_mel_dim :: int
  m_num_speakers :: int
  m_pad_id :: int
  m_sample_rate :: int
  m_initialized :: bool
  m_current_speed :: float32
  m_current_speaker :: int

record MatchaEnv =
  m_textToTokenIds :: "string \<Rightarrow> string + int list"
  usesBlankTokens :: bool
  runAcousticModel :: "int list \<Rightarrow> int \<Rightarrow> float32 \<Rightarrow> string + float32 list"
  runVocoder :: "float32 list \<Rightarrow> int \<Rightarrow> string + float32 list"
  resampleAudio :: "float32 list \<Rightarrow> int \<Rightarrow> int \<Rightarrow> float32 list"
  m_elapsed_ms :: int
  m_callback :: "(AudioChunk \<Rightarrow> string option) option"

text \<open>The constructor \<open>MatchaBackend(type)\<close> with the member initializers of the class.\<close>

definition new_MatchaBackend :: "BackendType \<Rightarrow> TtsConfig \<Rightarrow> MatchaBackend" where
  "new_MatchaBackend t default_config =
     \<lparr>m_type = t, m_config = default_config, m_mel_dim = 80, m_num_speakers = 1,
      m_pad_id = 0, m_sample_rate = 22050, m_initialized = False,
      m_current_speed = Finite 1, m_current_speaker = 0\<rparr>"

definition default_TtsConfig :: TtsConfig where
  "default_TtsConfig =
     \<lparr>voice = ''default'', speaker_id = 0, cfg_sample_rate = 22050, output_sample_rate = 0,
      volume = 50, speech_rate = Finite 1, enable_warmup = True\<rparr>"


definition setSpeed :: "MatchaBackend \<Rightarrow> float32 \<Rightarrow> ErrorInfo \<times> MatchaBackend" where
  "setSpeed b speed =
     (if float_le speed (Finite 0) \<or> float_gt speed (Finite 10)
      then (ErrorInfo_error INVALID_CONFIG ''Speed must be between 0.1 and 10.0'', b)
      else (ErrorInfo_ok, b\<lparr>m_current_speed := speed\<rparr>))"

definition setSpeaker :: "MatchaBackend \<Rightarrow> int \<Rightarrow> ErrorInfo \<times> MatchaBackend" where
  "setSpeaker b sid =
     (if sid < 0
      then (ErrorInfo_error INVALID_CONFIG ''Speaker ID must be non-negative'', b)
      else if sid \<ge> m_num_speakers b
      then (ErrorInfo_error INVALID_CONFIG ''Speaker ID out of range'', b)
      else (ErrorInfo_ok, b\<lparr>m_current_speaker := sid\<rparr>))"

definition synthesis_failed :: "string \<Rightarrow> string \<Rightarrow> ErrorInfo" where
  "synthesis_failed prefix what = ErrorInfo_error SYNTHESIS_FAILED (prefix @ what)"

text \<open>
  What the \<open>catch (const std::exception& e)\<close> of both \<open>synthesize\<close> functions makes of a
  failure of the text normalizer: an exception becomes \<open>SYNTHESIS_FAILED\<close> with its
  \<open>what()\<close>; a read outside a table and an overflowing negation are not exceptions.
\<close>

definition caught ::
  "string \<Rightarrow> norm_failure \<Rightarrow> SynthesisResult \<Rightarrow> cxx_fault + (ErrorInfo \<times> SynthesisResult)" where
  "caught prefix failure result =
     (case failure of
        out_of_range what \<Rightarrow> Inr (synthesis_failed prefix what, result)
      | invalid_argument what \<Rightarrow> Inr (synthesis_failed prefix what, result)
      | TableOverrun \<Rightarrow> Inl OutOfBounds
      | NegationOverflow \<Rightarrow> Inl SignedOverflow)"

definition empty_success :: "SynthesisResult \<Rightarrow> int \<Rightarrow> SynthesisResult" where
  "empty_success result rate = result\<lparr>audio := fromFloat [] rate True, success := True\<rparr>"

text \<open>
  The tail of both \<open>synthesize\<close> functions: fill the result from the samples, append the
  sentence, call the callback when one is set. \<open>end_time_ms\<close> is an \<open>int32_t\<close>.
\<close>

definition fill_result ::
  "float_ops \<Rightarrow> SynthesisResult \<Rightarrow> string \<Rightarrow> float32 list \<Rightarrow> int \<Rightarrow> int \<Rightarrow> SynthesisResult" where
  "fill_result ops result text audio_samples rate elapsed =
     (let r1 = result\<lparr>audio := fromFloat audio_samples rate True\<rparr>;
          r2 = r1\<lparr>audio_duration_ms := getDurationMs (audio r1)\<rparr>;
          r3 = r2\<lparr>processing_time_ms := elapsed\<rparr>;
          r4 = calculateRTF ops r3;
          r5 = r4\<lparr>success := True\<rparr>;
          sentence = \<lparr>sentence_text = text, begin_time_ms = 0,
                      end_time_ms = i32 (audio_duration_ms r5), sentence_is_final = True\<rparr>
      in r5\<lparr>sentences := sentences r5 @ [sentence]\<rparr>)"

definition run_callback ::
  "(AudioChunk \<Rightarrow> string option) option \<Rightarrow> string \<Rightarrow> SynthesisResult
     \<Rightarrow> ErrorInfo \<times> SynthesisResult" where
  "run_callback cb prefix r =
     (case cb of
        None \<Rightarrow> (ErrorInfo_ok, r)
      | Some notify \<Rightarrow>
          (case notify (audio r) of
             None \<Rightarrow> (ErrorInfo_ok, r)
           | Some what \<Rightarrow> (synthesis_failed prefix what, r)))"

definition norm_lang_of :: "BackendType \<Rightarrow> Language" where
  "norm_lang_of t = (case t of MATCHA_ZH \<Rightarrow> ZH | MATCHA_EN \<Rightarrow> EN | _ \<Rightarrow> AUTO)"

definition resample_needed :: "MatchaBackend \<Rightarrow> bool" where
  "resample_needed b =
     (output_sample_rate (m_config b) > 0 \<and> output_sample_rate (m_config b) \<noteq> m_sample_rate b)"

definition synthesize ::
  "MatchaEnv \<Rightarrow> float_ops \<Rightarrow> MatchaBackend \<Rightarrow> string \<Rightarrow> SynthesisResult
     \<Rightarrow> cxx_fault + (ErrorInfo \<times> SynthesisResult)" where
  "synthesize env ops b text result =
     (if \<not> m_initialized b
      then Inr (ErrorInfo_error NOT_INITIALIZED ''Backend not initialized'', result)
      else if text = [] then Inr (ErrorInfo_error INVALID_TEXT ''Empty text'', result)
      else (case text_normalizeText text (norm_lang_of (m_type b)) of
          Inl failure \<Rightarrow> caught ''Synthesis failed: '' failure result
        | Inr normalized_text \<Rightarrow> (case m_textToTokenIds env normalized_text of
            Inl what \<Rightarrow> Inr (synthesis_failed ''Synthesis failed: '' what, result)
          | Inr token_ids \<Rightarrow>
              (if token_ids = []
               then Inr (ErrorInfo_ok, empty_success result (m_sample_rate b))
               else (case (if usesBlankTokens env
                           then addBlankTokens (m_pad_id b) token_ids
                           else Inr token_ids) of
                   Inl fault \<Rightarrow> Inl fault
                 | Inr final_tokens \<Rightarrow>
                     (case runAcousticModel env final_tokens (m_current_speaker b)
                             (m_current_speed b) of
                        Inl what \<Rightarrow> Inr (synthesis_failed ''Synthesis failed: '' what, result)
                      | Inr mel \<Rightarrow>
                          (if mel = []
                           then Inr (ErrorInfo_ok, empty_success result (m_sample_rate b))
                           else (case runVocoder env mel (m_mel_dim b) of
                               Inl what \<Rightarrow>
                                 Inr (synthesis_failed ''Synthesis failed: '' what, result)
                             | Inr vocoded \<Rightarrow>
                                 Inr (run_callback (m_callback env) ''Synthesis failed: ''
                                   (fill_result ops result text
                                      (if resample_needed b
                                       then resampleAudio env vocoded (m_sample_rate b)
                                              (output_sample_rate (m_config b))
                                       else vocoded)
                                      (if resample_needed b
                                       then output_sample_rate (m_config b)
                                       else m_sample_rate b)
                                      (m_elapsed_ms env)))))))))))"

text \<open>
  \<open>KokoroBackend\<close>: a member \<open>x_\<close> is the field \<open>k_x\<close>. It overrides \<open>setSpeed\<close> but not
  \<open>setSpeaker\<close>, so that the latter is the default of \<open>ITtsBackend\<close>.
\<close>

definition SAMPLE_RATE :: int where
  "SAMPLE_RATE = 24000"

record KokoroBackend =
  k_config :: TtsConfig
  k_initialized :: bool
  k_current_speed :: float32
  k_phonemizer :: KokoroPhonemizer
  k_voice_manager :: KokoroVoiceManager
  k_callback :: "(AudioChunk \<Rightarrow> string option) option"

definition new_KokoroBackend :: "TtsConfig \<Rightarrow> KokoroBackend" where
  "new_KokoroBackend default_config =
     \<lparr>k_config = default_config, k_initialized = False, k_current_speed = Finite 1,
      k_phonemizer = \<lparr>pinyin_converter = False, espeak_available = False\<rparr>,
      k_voice_manager = new_KokoroVoiceManager, k_callback = None\<rparr>"

definition Kokoro_getNumSpeakers :: "KokoroBackend \<Rightarrow> int" where
  "Kokoro_getNumSpeakers b = 1"

definition Kokoro_getSampleRate :: "KokoroBackend \<Rightarrow> int" where
  "Kokoro_getSampleRate b = SAMPLE_RATE"

definition Kokoro_setSpeed :: "KokoroBackend \<Rightarrow> float32 \<Rightarrow> ErrorInfo \<times> KokoroBackend" where
  "Kokoro_setSpeed b speed =
     (if float_le speed (Finite 0) \<or> float_gt speed (Finite 10)
      then (ErrorInfo_error INVALID_CONFIG ''Speed must be between 0.1 and 10.0'', b)
      else (ErrorInfo_ok, b\<lparr>k_current_speed := speed\<rparr>))"

definition Kokoro_setSpeaker :: "KokoroBackend \<Rightarrow> int \<Rightarrow> ErrorInfo \<times> KokoroBackend" where
  "Kokoro_setSpeaker b sid =
     (ErrorInfo_error INTERNAL_ERROR ''Speaker update not supported'', b)"

definition Kokoro_synthesize ::
  "KokoroEnv \<Rightarrow> float_ops \<Rightarrow> KokoroBackend \<Rightarrow> string \<Rightarrow> SynthesisResult
     \<Rightarrow> cxx_fault + (ErrorInfo \<times> SynthesisResult)" where
  "Kokoro_synthesize env ops b text result =
     (if \<not> k_initialized b
      then Inr (ErrorInfo_error NOT_INITIALIZED ''Backend not initialized'', result)
      else if text = [] then Inr (ErrorInfo_error INVALID_TEXT ''Empty text'', result)
      else (case textToTokenIds env (k_phonemizer b) text of
          Inl failure \<Rightarrow> caught ''Kokoro synthesis failed: '' failure result
        | Inr token_ids \<Rightarrow>
            (if token_ids = [] then Inr (ErrorInfo_ok, empty_success result SAMPLE_RATE)
             else (case getStyleVector (k_voice_manager b) (i32 (int (length token_ids))) of
                 Inl fault \<Rightarrow> Inl fault
               | Inr style_vector \<Rightarrow>
                   (case runInference env token_ids style_vector
                           (fdiv ops (Finite 1) (k_current_speed b)) of
                      Inl what \<Rightarrow>
                        Inr (synthesis_failed ''Kokoro synthesis failed: '' what, result)
                    | Inr inferred \<Rightarrow>
                        (if inferred = []
                         then Inr (ErrorInfo_ok, empty_success result SAMPLE_RATE)
                         else Inr (run_callback (k_callback b) ''Kokoro synthesis failed: ''
                                (fill_result ops result text (k_processAudio env inferred)
                                   SAMPLE_RATE (k_elapsed_ms env)))))))))"




lemma failed_not_ok [simp]:
  "\<not> isOk (synthesis_failed prefix what)" "\<not> isOk (ErrorInfo_error NOT_INITIALIZED msg)"
  "\<not> isOk (ErrorInfo_error INVALID_TEXT msg)" "isOk ErrorInfo_ok"
  by (simp_all add: isOk_def synthesis_failed_def ErrorInfo_error_def ErrorInfo_ok_def)





text \<open>
  C5 (as amended). On an initialized backend, a non-empty text whose phonemization yields
  no token id makes \<open>synthesize\<close> return OK with \<open>success\<close> set and an empty chunk.
\<close>

theorem synthesize_empty_tokens:
  "(m_initialized b \<and> text \<noteq> [] \<and>
    text_normalizeText text (norm_lang_of (m_type b)) = Inr normalized \<and>
    m_textToTokenIds env normalized = Inr [] \<longrightarrow>
      synthesize env ops b text result =
        Inr (ErrorInfo_ok, result\<lparr>audio := fromFloat [] (m_sample_rate b) True, success := True\<rparr>)) \<and>
   (k_initialized kb \<and> text \<noteq> [] \<and> textToTokenIds kenv (k_phonemizer kb) text = Inr [] \<longrightarrow>
      Kokoro_synthesize kenv ops kb text result =
        Inr (ErrorInfo_ok, result\<lparr>audio := fromFloat [] SAMPLE_RATE True, success := True\<rparr>))"
  by (simp add: synthesize_def Kokoro_synthesize_def empty_success_def)

text \<open>
  C7 (as amended). A speed that is a number or an infinity and is not greater than 0 is
  refused by \<open>setSpeed\<close> of both backends with \<open>INVALID_CONFIG\<close>, the backend unchanged.
  A speaker id below 0 or not below the number of speakers is refused by the Matcha
  \<open>setSpeaker\<close> with \<open>INVALID_CONFIG\<close>, the backend unchanged. The Kokoro backend
  inherits \<open>setSpeaker\<close>: every id gets \<open>INTERNAL_ERROR\<close>, the backend unchanged.
\<close>

theorem setters_reject_invalid:
  "(speed \<noteq> NaN \<and> \<not> float_gt speed (Finite 0) \<longrightarrow>
      setSpeed b speed =
        (ErrorInfo_error INVALID_CONFIG ''Speed must be between 0.1 and 10.0'', b) \<and>
      Kokoro_setSpeed kb speed =
        (ErrorInfo_error INVALID_CONFIG ''Speed must be between 0.1 and 10.0'', kb)) \<and>
   (sid < 0 \<or> m_num_speakers b \<le> sid \<longrightarrow>
      code (fst (setSpeaker b sid)) = INVALID_CONFIG \<and> snd (setSpeaker b sid) = b) \<and>
   Kokoro_setSpeaker kb sid = (ErrorInfo_error INTERNAL_ERROR ''Speaker update not supported'', kb)"
proof -
  have "speed \<noteq> NaN \<Longrightarrow> \<not> float_gt speed (Finite 0) \<Longrightarrow> float_le speed (Finite 0)"
    by (cases speed) auto
  then show ?thesis
    by (auto simp: setSpeed_def Kokoro_setSpeed_def setSpeaker_def Kokoro_setSpeaker_def
        ErrorInfo_error_def)
qed


text \<open>
  Concrete backends, to run the functions on examples. The Matcha phonemizer knows the
  word \<open>hi\<close> only.
\<close>

definition demo_matcha_env :: MatchaEnv where
  "demo_matcha_env =
     \<lparr>m_textToTokenIds = (\<lambda>t. if t = ''hi'' then Inr [1, 2, 3] else Inr []),
      usesBlankTokens = True,
      runAcousticModel = (\<lambda>tokens speaker speed. Inr [Finite 0]),
      runVocoder = (\<lambda>mel dim. Inr [Finite 0, Finite 0]),
      resampleAudio = (\<lambda>a src dst. a),
      m_elapsed_ms = 5, m_callback = None\<rparr>"

definition ready_matcha :: MatchaBackend where
  "ready_matcha = (new_MatchaBackend MATCHA_EN default_TtsConfig)\<lparr>m_initialized := True\<rparr>"

definition ready_kokoro :: KokoroBackend where
  "ready_kokoro =
     (new_KokoroBackend default_TtsConfig)
       \<lparr>k_initialized := True, k_phonemizer := ready_phonemizer,
        k_voice_manager := one_row_voice\<rparr>"

definition fresh_result :: SynthesisResult where
  "fresh_result = new_SynthesisResult (fromFloat [] 0 True) ErrorInfo_ok"



lemma demo_normalized:
  "text_normalizeText ''hi'' EN = Inr ''hi''"
  "text_normalizeText ''?'' EN = Inr ''?''"
  by code_simp+

lemma demo_no_tokens:
  "textToTokenIds demo_kokoro_env ready_phonemizer ''hi'' = Inr []"
  by code_simp













theorem synthesize_empty_tokens_witness:
  "m_initialized ready_matcha \<and> ''?'' \<noteq> [] \<and>
   text_normalizeText ''?'' (norm_lang_of (m_type ready_matcha)) = Inr ''?'' \<and>
   m_textToTokenIds demo_matcha_env ''?'' = Inr [] \<and>
   synthesize demo_matcha_env exact_ops ready_matcha ''?'' fresh_result =
     Inr (ErrorInfo_ok, fresh_result\<lparr>audio := fromFloat [] 22050 True, success := True\<rparr>) \<and>
   k_initialized ready_kokoro \<and> ''hi'' \<noteq> [] \<and>
   textToTokenIds demo_kokoro_env (k_phonemizer ready_kokoro) ''hi'' = Inr [] \<and>
   Kokoro_synthesize demo_kokoro_env exact_ops ready_kokoro ''hi'' fresh_result =
     Inr (ErrorInfo_ok, fresh_result\<lparr>audio := fromFloat [] 24000 True, success := True\<rparr>)"
proof -
  have t: "m_type ready_matcha = MATCHA_EN" "k_phonemizer ready_kokoro = ready_phonemizer"
    by (simp_all add: ready_matcha_def new_MatchaBackend_def ready_kokoro_def)
  have h1: "m_initialized ready_matcha \<and> ''?'' \<noteq> [] \<and>
     text_normalizeText ''?'' (norm_lang_of (m_type ready_matcha)) = Inr ''?'' \<and>
     m_textToTokenIds demo_matcha_env ''?'' = Inr []"
    by (simp add: t norm_lang_of_def demo_normalized)
       (simp add: ready_matcha_def demo_matcha_env_def)
  have h2: "k_initialized ready_kokoro \<and> ''hi'' \<noteq> [] \<and>
     textToTokenIds demo_kokoro_env (k_phonemizer ready_kokoro) ''hi'' = Inr []"
    by (simp add: t demo_no_tokens) (simp add: ready_kokoro_def)
  have m: "m_sample_rate ready_matcha = 22050"
    by (simp add: ready_matcha_def new_MatchaBackend_def)
  show ?thesis
    using synthesize_empty_tokens[of ready_matcha "''?''" "''?''" demo_matcha_env exact_ops
        fresh_result ready_kokoro demo_kokoro_env] h1 h2 m
      synthesize_empty_tokens[of ready_matcha "''hi''" "''hi''" demo_matcha_env exact_ops
        fresh_result ready_kokoro demo_kokoro_env]
    by (simp add: SAMPLE_RATE_def)
qed

text \<open>
  The claim as stated fails on the empty text: the Kokoro phonemizer yields no token id
  for it, and \<open>synthesize\<close> refuses it with \<open>INVALID_TEXT\<close> before phonemizing.
\<close>

theorem synthesize_empty_tokens_counterexample:
  "k_initialized ready_kokoro \<and>
   textToTokenIds demo_kokoro_env (k_phonemizer ready_kokoro) [] = Inr [] \<and>
   Kokoro_synthesize demo_kokoro_env exact_ops ready_kokoro [] fresh_result =
     Inr (ErrorInfo_error INVALID_TEXT ''Empty text'', fresh_result)"
  by (simp add: ready_kokoro_def textToTokenIds_def Kokoro_synthesize_def)

theorem setters_reject_invalid_witness:
  "Finite (- 1) \<noteq> NaN \<and> \<not> float_gt (Finite (- 1)) (Finite 0) \<and>
   setSpeed ready_matcha (Finite (- 1)) =
     (ErrorInfo_error INVALID_CONFIG ''Speed must be between 0.1 and 10.0'', ready_matcha) \<and>
   Kokoro_setSpeed ready_kokoro (Finite (- 1)) =
     (ErrorInfo_error INVALID_CONFIG ''Speed must be between 0.1 and 10.0'', ready_kokoro) \<and>
   m_num_speakers ready_matcha \<le> 1 \<and>
   code (fst (setSpeaker ready_matcha 1)) = INVALID_CONFIG \<and>
   snd (setSpeaker ready_matcha 1) = ready_matcha"
proof -
  have n: "m_num_speakers ready_matcha \<le> 1"
    by (simp add: ready_matcha_def new_MatchaBackend_def)
  show ?thesis
    using setters_reject_invalid[of "Finite (- 1)" ready_matcha ready_kokoro 1] n by simp
qed

text \<open>
  The claim as stated fails for the Kokoro backend, whose \<open>setSpeaker\<close> answers
  \<open>INTERNAL_ERROR\<close>; and a NaN speed, which is not greater than 0, passes both tests of
  \<open>setSpeed\<close> and is stored.
\<close>

theorem setters_reject_invalid_counterexample:
  "Kokoro_getNumSpeakers ready_kokoro \<le> 5 \<and>
   code (fst (Kokoro_setSpeaker ready_kokoro 5)) = INTERNAL_ERROR \<and>
   \<not> float_gt NaN (Finite 0) \<and>
   m_current_speed ready_matcha = Finite 1 \<and>
   setSpeed ready_matcha NaN = (ErrorInfo_ok, ready_matcha\<lparr>m_current_speed := NaN\<rparr>) \<and>
   Kokoro_setSpeed ready_kokoro NaN = (ErrorInfo_ok, ready_kokoro\<lparr>k_current_speed := NaN\<rparr>)"
  by (simp add: setSpeed_def Kokoro_setSpeed_def Kokoro_setSpeaker_def ready_matcha_def
      new_MatchaBackend_def Kokoro_getNumSpeakers_def ErrorInfo_error_def)

section \<open>Inverse short-time Fourier transform (vocoder)\<close>

record ISTFTConfig =
  n_fft :: int
  hop_length :: int
  win_length :: int

text \<open>
  Arithmetic on samples rounds; the operations, the window coefficient
  \<open>0.5f * (1.0f - cos(2 pi i / (length - 1)))\<close> and the inverse transform FFTW executes
  (sample \<open>i\<close> of the \<open>n_fft\<close> outputs for the bins that were copied in) are parameters.
  The threshold \<open>1e-8f\<close> is the float \<open>11258999 / 2^50\<close>.
\<close>

record dsp_ops =
  hann_coeff :: "int \<Rightarrow> int \<Rightarrow> float32"
  c2r_sample :: "int \<Rightarrow> (float32 \<times> float32) list \<Rightarrow> int \<Rightarrow> float32"
  ifft_scale :: "int \<Rightarrow> float32"
  fmul :: "float32 \<Rightarrow> float32 \<Rightarrow> float32"
  fadd :: "float32 \<Rightarrow> float32 \<Rightarrow> float32"
  fquot :: "float32 \<Rightarrow> float32 \<Rightarrow> float32"

fun fold_fault :: "('a \<Rightarrow> 's \<Rightarrow> cxx_fault + 's) \<Rightarrow> 'a list \<Rightarrow> 's \<Rightarrow> cxx_fault + 's" where
  "fold_fault step [] s = Inr s"
| "fold_fault step (x # xs) s =
     (case step x s of Inl fault \<Rightarrow> Inl fault | Inr s' \<Rightarrow> fold_fault step xs s')"

definition read_at :: "'a list \<Rightarrow> int \<Rightarrow> cxx_fault + 'a" where
  "read_at xs i = (if 0 \<le> i \<and> i < int (length xs) then Inr (xs ! nat i) else Inl OutOfBounds)"

definition createHannWindow :: "dsp_ops \<Rightarrow> int \<Rightarrow> cxx_fault + float32 list" where
  "createHannWindow ops len =
     (if len < 0 then Inl LengthError
      else Inr (map (\<lambda>i. hann_coeff ops len (int i)) [0..<nat len]))"

text \<open>\<open>in[i][0] = p_real[i]; in[i][1] = p_imag[i]\<close> with \<open>p_real = data() + frame * n_fft_bins\<close>.\<close>

definition copy_bin ::
  "float32 list \<Rightarrow> float32 list \<Rightarrow> int \<Rightarrow> nat \<Rightarrow> (float32 \<times> float32) list
     \<Rightarrow> cxx_fault + (float32 \<times> float32) list" where
  "copy_bin stft_real stft_imag base i spectrum =
     (case read_at stft_real (base + int i) of
        Inl fault \<Rightarrow> Inl fault
      | Inr re \<Rightarrow>
          (case read_at stft_imag (base + int i) of
             Inl fault \<Rightarrow> Inl fault
           | Inr im \<Rightarrow> Inr (spectrum @ [(re, im)])))"

text \<open>
  One step of the overlap-add loop: the test \<open>start_pos + i < audio_length\<close> guards the
  upper end only, and \<open>window[i]\<close> is read for every \<open>i < n_fft\<close> that passes it.
\<close>

definition overlap_add ::
  "dsp_ops \<Rightarrow> float32 list \<Rightarrow> float32 list \<Rightarrow> int \<Rightarrow> int \<Rightarrow> nat
     \<Rightarrow> float32 list \<times> float32 list \<Rightarrow> cxx_fault + (float32 list \<times> float32 list)" where
  "overlap_add ops window out start_pos audio_length i acc =
     (let pos = i32 (start_pos + int i); audio_buf = fst acc; denominator = snd acc in
      if pos < audio_length
      then (if 0 \<le> pos \<and> pos < int (length audio_buf) \<and> pos < int (length denominator) \<and>
               i < length window
            then Inr (audio_buf[nat pos := fadd ops (audio_buf ! nat pos) (out ! i)],
                      denominator[nat pos := fadd ops (denominator ! nat pos)
                                               (fmul ops (window ! i) (window ! i))])
            else Inl OutOfBounds)
      else Inr acc)"

text \<open>
  One frame. A negative \<open>n_fft\<close> makes \<open>sizeof(float) * n_fft\<close> a huge \<open>size_t\<close>, which
  \<open>posix_memalign\<close> refuses; FFTW plans transforms of positive size only.
\<close>

definition istft_frame ::
  "dsp_ops \<Rightarrow> ISTFTConfig \<Rightarrow> float32 list \<Rightarrow> float32 list \<Rightarrow> int \<Rightarrow> float32 list \<Rightarrow> int
     \<Rightarrow> nat \<Rightarrow> float32 list \<times> float32 list \<Rightarrow> cxx_fault + (float32 list \<times> float32 list)" where
  "istft_frame ops config stft_real stft_imag n_fft_bins window audio_length frame acc =
     (if n_fft config < 0 then Inl BadAlloc
      else if n_fft config = 0 then Inl InvalidPlan
      else
        (case fold_fault (copy_bin stft_real stft_imag (i32 (int frame * n_fft_bins)))
                [0..<nat (min n_fft_bins (n_fft config div 2 + 1))] [] of
           Inl fault \<Rightarrow> Inl fault
         | Inr spectrum \<Rightarrow>
             (let out0 = map (\<lambda>i. c2r_sample ops (n_fft config) spectrum (int i))
                           [0..<nat (n_fft config)];
                  out1 = map (\<lambda>x. fmul ops x (ifft_scale ops (n_fft config))) out0;
                  out2 = map (\<lambda>i. if int i < win_length config
                                    then fmul ops (out1 ! i) (window ! i) else out1 ! i)
                           [0..<nat (n_fft config)]
              in fold_fault
                   (overlap_add ops window out2 (i32 (int frame * hop_length config))
                      audio_length)
                   [0..<nat (n_fft config)] acc)))"

definition normalize_overlap :: "dsp_ops \<Rightarrow> float32 list \<Rightarrow> float32 list \<Rightarrow> float32 list" where
  "normalize_overlap ops audio_buf denominator =
     map (\<lambda>(a, d). if float_gt d (Finite (11258999 / 1125899906842624)) then fquot ops a d else a)
       (zip audio_buf denominator)"

definition istft ::
  "dsp_ops \<Rightarrow> float32 list \<Rightarrow> float32 list \<Rightarrow> int \<Rightarrow> int \<Rightarrow> ISTFTConfig
     \<Rightarrow> cxx_fault + float32 list" where
  "istft ops stft_real stft_imag num_frames n_fft_bins config =
     (let audio_length = i32 (n_fft config + i32 (i32 (num_frames - 1) * hop_length config)) in
      if audio_length < 0 then Inl LengthError
      else
        (case createHannWindow ops (win_length config) of
           Inl fault \<Rightarrow> Inl fault
         | Inr window \<Rightarrow>
             (case fold_fault
                     (istft_frame ops config stft_real stft_imag n_fft_bins window audio_length)
                     [0..<nat num_frames]
                     (replicate (nat audio_length) (Finite 0),
                      replicate (nat audio_length) (Finite 0)) of
                Inl fault \<Rightarrow> Inl fault
              | Inr (audio_buf, denominator) \<Rightarrow> Inr (normalize_overlap ops audio_buf denominator))))"

lemma fold_fault_total:
  assumes "\<And>x s. x \<in> set xs \<Longrightarrow> P s \<Longrightarrow> \<exists>s'. step x s = Inr s' \<and> P s'" "P s"
  shows "\<exists>s'. fold_fault step xs s = Inr s' \<and> P s'"
  using assms
proof (induction xs arbitrary: s)
  case Nil
  then show ?case by simp
next
  case (Cons x xs)
  from Cons.prems(1)[of x s] Cons.prems(2) obtain s1 where s1: "step x s = Inr s1" "P s1"
    by auto
  have "\<exists>s'. fold_fault step xs s1 = Inr s' \<and> P s'"
    using Cons.IH[of s1] Cons.prems(1) s1(2) by simp
  then show ?case using s1(1) by simp
qed

lemma fold_fault_preserves:
  assumes "\<And>x s s'. P s \<Longrightarrow> step x s = Inr s' \<Longrightarrow> P s'" "P s" "fold_fault step xs s = Inr s'"
  shows "P s'"
  using assms
proof (induction xs arbitrary: s)
  case Nil
  then show ?case by simp
next
  case (Cons x xs)
  from Cons.prems(3) obtain s1 where s1: "step x s = Inr s1" "fold_fault step xs s1 = Inr s'"
    by (auto split: sum.splits)
  have "P s1" using Cons.prems(1)[OF Cons.prems(2) s1(1)] .
  then show ?case using Cons.IH[of s1] Cons.prems(1) s1(2) by blast
qed

definition both_length :: "nat \<Rightarrow> float32 list \<times> float32 list \<Rightarrow> bool" where
  "both_length n acc = (length (fst acc) = n \<and> length (snd acc) = n)"

lemma overlap_add_preserves:
  "both_length n acc \<Longrightarrow> overlap_add ops window out start al i acc = Inr acc'
   \<Longrightarrow> both_length n acc'"
  by (auto simp: overlap_add_def both_length_def Let_def split: if_splits)

lemma istft_frame_preserves:
  assumes "both_length n acc"
    "istft_frame ops config re im bins window al frame acc = Inr acc'"
  shows "both_length n acc'"
proof -
  from assms(2) obtain out start where
    "fold_fault (overlap_add ops window out start al) [0..<nat (n_fft config)] acc = Inr acc'"
    by (auto simp: istft_frame_def Let_def split: if_splits sum.splits)
  then show ?thesis
    using fold_fault_preserves[where P = "both_length n"
        and step = "overlap_add ops window out start al"] overlap_add_preserves assms(1)
    by blast
qed

lemma normalize_overlap_length:
  "both_length n (a, d) \<Longrightarrow> length (normalize_overlap ops a d) = n"
  by (simp add: normalize_overlap_def both_length_def)

lemma istft_length_if_returns:
  assumes "istft ops re im T bins config = Inr buf"
  shows "int (length buf) = i32 (n_fft config + i32 (i32 (T - 1) * hop_length config))"
proof -
  let ?al = "i32 (n_fft config + i32 (i32 (T - 1) * hop_length config))"
  from assms have nn: "0 \<le> ?al" by (auto simp: istft_def Let_def split: if_splits)
  from assms obtain window a d where
    f: "fold_fault (istft_frame ops config re im bins window ?al) [0..<nat T]
          (replicate (nat ?al) (Finite 0), replicate (nat ?al) (Finite 0)) = Inr (a, d)"
    and r: "buf = normalize_overlap ops a d"
    by (auto simp: istft_def Let_def split: if_splits sum.splits)
  have "both_length (nat ?al) (replicate (nat ?al) (Finite 0), replicate (nat ?al) (Finite 0))"
    by (simp add: both_length_def)
  then have "both_length (nat ?al) (a, d)"
    using fold_fault_preserves[where P = "both_length (nat ?al)"
        and step = "istft_frame ops config re im bins window ?al", OF _ _ f]
      istft_frame_preserves by blast
  then show ?thesis using r nn by (simp add: normalize_overlap_length)
qed


lemma copy_bins_total:
  assumes "0 \<le> base" "base + int k \<le> int (length re)" "base + int k \<le> int (length im)"
  shows "\<exists>sp. fold_fault (copy_bin re im base) [0..<k] [] = Inr sp \<and> True"
proof (rule fold_fault_total[where P = "\<lambda>s. True"])
  fix x s assume "x \<in> set [0..<k]"
  then have "x < k" by simp
  then have "0 \<le> base + int x" "base + int x < int (length re)" "base + int x < int (length im)"
    using assms by auto
  then show "\<exists>s'. copy_bin re im base x s = Inr s' \<and> True"
    by (simp add: copy_bin_def read_at_def)
qed simp

lemma overlap_total:
  assumes "both_length n acc" "0 \<le> start" "start + int m \<le> int n" "int n < 2147483648"
    "m \<le> length window"
  shows "\<exists>acc'. fold_fault (overlap_add ops window out start (int n)) [0..<m] acc = Inr acc' \<and>
           both_length n acc'"
proof (rule fold_fault_total[where P = "both_length n"])
  fix x s assume x: "x \<in> set [0..<m]" and s: "both_length n s"
  from x have xm: "x < m" by simp
  have "i32 (start + int x) = start + int x"
  proof (rule i32_id)
    show "- 2147483648 \<le> start + int x" using assms(2) by linarith
    show "start + int x < 2147483648" using assms(3,4) xm by linarith
  qed
  moreover have "start + int x < int n" "0 \<le> start + int x" "x < length window"
    using assms(2,3,5) xm by auto
  ultimately show "\<exists>s'. overlap_add ops window out start (int n) x s = Inr s' \<and> both_length n s'"
    using s by (simp add: overlap_add_def both_length_def Let_def)
qed (rule assms(1))

lemma istft_frame_total:
  assumes acc: "both_length n acc"
    and cfg: "1 \<le> n_fft config" "0 \<le> hop_length config"
    and frame: "frame < tn"
    and fits: "int (tn - 1) * hop_length config + n_fft config \<le> int n" "int n < 2147483648"
    and win: "nat (n_fft config) \<le> length window"
    and bins: "0 \<le> bins" "int tn * bins < 2147483648"
      "int tn * bins \<le> int (length re)" "int tn * bins \<le> int (length im)"
  shows "\<exists>acc'. istft_frame ops config re im bins window (int n) frame acc = Inr acc' \<and>
           both_length n acc'"
proof -
  let ?k = "nat (min bins (n_fft config div 2 + 1))"
  have fb: "int frame * bins + bins \<le> int tn * bins"
  proof -
    have "int frame + 1 \<le> int tn" using frame by simp
    then have "(int frame + 1) * bins \<le> int tn * bins" using bins(1) by (rule mult_right_mono)
    then show ?thesis by (simp add: algebra_simps)
  qed
  have b0: "0 \<le> int frame * bins" using bins(1) by simp
  have base: "i32 (int frame * bins) = int frame * bins"
  proof (rule i32_id)
    show "- 2147483648 \<le> int frame * bins" using b0 by linarith
    show "int frame * bins < 2147483648" using fb bins(1,2) by linarith
  qed
  have k: "int ?k \<le> bins" using bins(1) by simp
  have kr: "int frame * bins + int ?k \<le> int (length re)" using fb k bins(3) by linarith
  have ki: "int frame * bins + int ?k \<le> int (length im)" using fb k bins(4) by linarith
  from copy_bins_total[OF b0 kr ki] obtain sp where
    sp: "fold_fault (copy_bin re im (int frame * bins)) [0..<?k] [] = Inr sp"
    by blast
  have fh: "int frame * hop_length config \<le> int (tn - 1) * hop_length config"
  proof -
    have "int frame \<le> int (tn - 1)" using frame by simp
    then show ?thesis using cfg(2) by (rule mult_right_mono)
  qed
  have h0: "0 \<le> int frame * hop_length config" using cfg(2) by simp
  have start: "i32 (int frame * hop_length config) = int frame * hop_length config"
  proof (rule i32_id)
    show "- 2147483648 \<le> int frame * hop_length config" using h0 by linarith
    show "int frame * hop_length config < 2147483648" using fh fits cfg(1) by linarith
  qed
  have lim: "int frame * hop_length config + int (nat (n_fft config)) \<le> int n"
    using fh fits(1) cfg(1) by simp
  from overlap_total[OF acc h0 lim fits(2) win]
  have "\<And>out. \<exists>acc'. fold_fault (overlap_add ops window out (int frame * hop_length config) (int n))
          [0..<nat (n_fft config)] acc = Inr acc' \<and> both_length n acc'" by blast
  then show ?thesis
    using cfg(1) sp by (simp add: istft_frame_def base start Let_def)
qed

lemma istft_total:
  assumes t: "1 \<le> T" "T < 2147483648"
    and cfg: "1 \<le> n_fft config" "0 \<le> hop_length config" "n_fft config \<le> win_length config"
    and fits: "n_fft config + (T - 1) * hop_length config < 2147483648"
    and bins: "0 \<le> bins" "T * bins < 2147483648"
      "T * bins \<le> int (length re)" "T * bins \<le> int (length im)"
  shows "\<exists>b. istft ops re im T bins config = Inr b \<and>
           int (length b) = n_fft config + (T - 1) * hop_length config"
proof -
  let ?L = "n_fft config + (T - 1) * hop_length config"
  have t1: "i32 (T - 1) = T - 1" using t by (intro i32_id) auto
  have p0: "0 \<le> (T - 1) * hop_length config" using t(1) cfg(2) by simp
  have p1: "i32 ((T - 1) * hop_length config) = (T - 1) * hop_length config"
  proof (rule i32_id)
    show "- 2147483648 \<le> (T - 1) * hop_length config" using p0 by linarith
    show "(T - 1) * hop_length config < 2147483648" using fits cfg(1) by linarith
  qed
  have al: "i32 (n_fft config + i32 (i32 (T - 1) * hop_length config)) = ?L"
    unfolding t1 p1
  proof (rule i32_id)
    show "- 2147483648 \<le> ?L" using p0 cfg(1) by linarith
    show "?L < 2147483648" using fits by linarith
  qed
  have L0: "0 \<le> ?L" using p0 cfg(1) by simp
  let ?n = "nat ?L"
  have nL: "int ?n = ?L" using L0 by simp
  let ?window = "map (\<lambda>i. hann_coeff ops (win_length config) (int i)) [0..<nat (win_length config)]"
  have w: "createHannWindow ops (win_length config) = Inr ?window"
    using cfg(1,3) by (simp add: createHannWindow_def)
  let ?init = "(replicate ?n (Finite 0), replicate ?n (Finite 0))"
  have "\<exists>acc'. fold_fault (istft_frame ops config re im bins ?window (int ?n)) [0..<nat T] ?init
           = Inr acc' \<and> both_length ?n acc'"
  proof (rule fold_fault_total[where P = "both_length ?n"])
    fix x s assume x: "x \<in> set [0..<nat T]" and s: "both_length ?n s"
    have tn: "int (nat T) = T" using t(1) by simp
    have a: "int (nat T - 1) * hop_length config + n_fft config \<le> int ?n"
      using nL t(1) by (simp add: of_nat_diff algebra_simps)
    show "\<exists>s'. istft_frame ops config re im bins ?window (int ?n) x s = Inr s' \<and>
             both_length ?n s'"
    proof (rule istft_frame_total[OF s cfg(1) cfg(2) _ a])
      show "x < nat T" using x by simp
      show "int ?n < 2147483648" using nL fits by simp
      show "nat (n_fft config) \<le> length ?window" using cfg(3) by simp
      show "0 \<le> bins" by (rule bins(1))
      show "int (nat T) * bins < 2147483648" using tn bins(2) by simp
      show "int (nat T) * bins \<le> int (length re)" using tn bins(3) by simp
      show "int (nat T) * bins \<le> int (length im)" using tn bins(4) by simp
    qed
  qed (simp add: both_length_def)
  then obtain a d where
    f: "fold_fault (istft_frame ops config re im bins ?window (int ?n)) [0..<nat T] ?init
          = Inr (a, d)" and bl: "both_length ?n (a, d)"
    by (metis prod.collapse)
  have "istft ops re im T bins config = Inr (normalize_overlap ops a d)"
    using f w L0 by (simp add: istft_def al Let_def nL)
  moreover have "int (length (normalize_overlap ops a d)) = ?L"
    using normalize_overlap_length[OF bl] nL by simp
  ultimately show ?thesis by blast
qed


lemma i32_idem: "i32 (i32 x) = i32 x"
  by (simp add: i32_def)

lemma i32_nonneg_exact:
  assumes "- 2147483648 \<le> v" "v < 4294967296" "0 \<le> i32 v"
  shows "0 \<le> v \<and> v < 2147483648"
proof (cases "v < 2147483648")
  case True
  then have "i32 v = v" using assms(1) by (intro i32_id) simp_all
  with assms(3) True show ?thesis by simp
next
  case False
  then have r: "0 \<le> v + 2147483648 - 4294967296" "v + 2147483648 - 4294967296 < 4294967296"
    using assms(2) by simp_all
  have "(v + 2147483648) mod 4294967296 = (v + 2147483648 - 4294967296) mod 4294967296"
    by (rule minus_mod_self2[symmetric])
  also have "\<dots> = v + 2147483648 - 4294967296" using r by (rule mod_pos_pos_trivial)
  finally have "i32 v = v - 4294967296" by (simp add: i32_def)
  with assms(2,3) show ?thesis by simp
qed

lemma fold_fault_each:
  "fold_fault step xs s = Inr s' \<Longrightarrow> x \<in> set xs \<Longrightarrow> \<exists>a b. step x a = Inr b"
proof (induction xs arbitrary: s)
  case Nil
  then show ?case by simp
next
  case (Cons y ys)
  from Cons.prems(1) obtain s1 where s1: "step y s = Inr s1" "fold_fault step ys s1 = Inr s'"
    by (auto split: sum.splits)
  show ?case
  proof (cases "x = y")
    case True
    then show ?thesis using s1(1) by blast
  next
    case False
    then have "x \<in> set ys" using Cons.prems(2) by simp
    then show ?thesis using Cons.IH[OF s1(2)] by blast
  qed
qed

lemma overlap_add_first:
  assumes "overlap_add ops window out start al 0 acc = Inr acc'" "0 \<le> al"
  shows "0 \<le> i32 start"
  using assms by (auto simp: overlap_add_def Let_def split: if_splits)

lemma istft_frame_returns:
  assumes "istft_frame ops config re im bins window al frame acc = Inr acc'" "0 \<le> al"
  shows "1 \<le> n_fft config \<and> 0 \<le> i32 (int frame * hop_length config)"
proof -
  from assms(1) have n: "1 \<le> n_fft config"
    by (auto simp: istft_frame_def split: if_splits)
  from assms(1) obtain out where
    f: "fold_fault (overlap_add ops window out (i32 (int frame * hop_length config)) al)
          [0..<nat (n_fft config)] acc = Inr acc'"
    by (auto simp: istft_frame_def Let_def split: if_splits sum.splits)
  have "0 \<in> set [0..<nat (n_fft config)]" using n by simp
  from fold_fault_each[OF f this] obtain a b where
    "overlap_add ops window out (i32 (int frame * hop_length config)) al 0 a = Inr b" by blast
  from overlap_add_first[OF this assms(2)] show ?thesis using n by (simp add: i32_idem)
qed

lemma frame_starts_exact:
  assumes "\<forall>f < k. 0 \<le> i32 (int f * hop)" "- 2147483648 \<le> hop" "hop < 2147483648"
  shows "f < k \<Longrightarrow> 0 \<le> int f * hop \<and> int f * hop < 2147483648"
proof (induction f)
  case 0
  then show ?case by simp
next
  case (Suc f)
  then have ih: "0 \<le> int f * hop" "int f * hop < 2147483648" by simp_all
  have e: "int (Suc f) * hop = int f * hop + hop" by (simp add: algebra_simps)
  have "- 2147483648 \<le> int (Suc f) * hop" "int (Suc f) * hop < 4294967296"
    unfolding e using ih assms(2,3) by linarith+
  moreover have "0 \<le> i32 (int (Suc f) * hop)" using assms(1) Suc.prems by blast
  ultimately show ?case by (rule i32_nonneg_exact)
qed

lemma istft_exact_length_if_returns:
  assumes r: "istft ops re im T bins config = Inr buf"
    and t: "1 \<le> T" "T < 2147483648"
    and n: "n_fft config < 2147483648"
    and h: "- 2147483648 \<le> hop_length config" "hop_length config < 2147483648"
  shows "int (length buf) = n_fft config + (T - 1) * hop_length config"
proof -
  let ?al = "i32 (n_fft config + i32 (i32 (T - 1) * hop_length config))"
  from r have al0: "0 \<le> ?al" by (auto simp: istft_def Let_def split: if_splits)
  from r obtain window acc0 a d where
    f: "fold_fault (istft_frame ops config re im bins window ?al) [0..<nat T] acc0 = Inr (a, d)"
    by (auto simp: istft_def Let_def split: if_splits sum.splits)
  have each: "\<forall>f < nat T. 1 \<le> n_fft config \<and> 0 \<le> i32 (int f * hop_length config)"
  proof (intro allI impI)
    fix k assume "k < nat T"
    then have "k \<in> set [0..<nat T]" by simp
    from fold_fault_each[OF f this] obtain x y where
      "istft_frame ops config re im bins window ?al k x = Inr y" by blast
    from istft_frame_returns[OF this al0]
    show "1 \<le> n_fft config \<and> 0 \<le> i32 (int k * hop_length config)" .
  qed
  have last: "nat T - 1 < nat T" using t(1) by simp
  from each last have n1: "1 \<le> n_fft config" by blast
  from each have "\<forall>f < nat T. 0 \<le> i32 (int f * hop_length config)" by blast
  from frame_starts_exact[OF this h last]
  have s: "0 \<le> (T - 1) * hop_length config" "(T - 1) * hop_length config < 2147483648"
    using t(1) by (simp_all add: of_nat_diff)
  have t1: "i32 (T - 1) = T - 1" using t by (intro i32_id) auto
  have s1: "i32 ((T - 1) * hop_length config) = (T - 1) * hop_length config"
    using s by (intro i32_id) auto
  let ?v = "n_fft config + (T - 1) * hop_length config"
  have al: "?al = i32 ?v" by (simp add: t1 s1)
  have "- 2147483648 \<le> ?v" "?v < 4294967296" using n1 n s by linarith+
  moreover have "0 \<le> i32 ?v" using al0 al by simp
  ultimately have "0 \<le> ?v \<and> ?v < 2147483648" by (rule i32_nonneg_exact)
  then have "i32 ?v = ?v" by (intro i32_id) auto
  with istft_length_if_returns[OF r] al show ?thesis by simp
qed

text \<open>
  C8. For \<open>T \<ge> 1\<close> frames and any configuration (\<open>T\<close>, \<open>n_fft\<close> and \<open>hop_length\<close> being
  \<open>int32_t\<close> values), every buffer \<open>istft\<close> returns has exactly \<open>n_fft + (T - 1) * hop\<close>
  samples. It does return one when \<open>n_fft \<ge> 1\<close>, \<open>hop \<ge> 0\<close>, \<open>win_length \<ge> n_fft\<close>, the
  length is below \<open>2^31\<close> and both inputs hold \<open>T * n_fft_bins\<close> values.
\<close>

theorem istft_length:
  assumes "1 \<le> T" "T < 2147483648" "n_fft config < 2147483648"
    "- 2147483648 \<le> hop_length config" "hop_length config < 2147483648"
  shows "(istft ops re im T bins config = Inr buf \<longrightarrow>
            int (length buf) = n_fft config + (T - 1) * hop_length config) \<and>
         (1 \<le> n_fft config \<and> 0 \<le> hop_length config \<and> n_fft config \<le> win_length config \<and>
          n_fft config + (T - 1) * hop_length config < 2147483648 \<and>
          0 \<le> bins \<and> T * bins < 2147483648 \<and>
          T * bins \<le> int (length re) \<and> T * bins \<le> int (length im) \<longrightarrow>
            (\<exists>b. istft ops re im T bins config = Inr b \<and>
                 int (length b) = n_fft config + (T - 1) * hop_length config))"
  using istft_exact_length_if_returns[of ops re im T bins config buf] assms
    istft_total[of T config bins re im ops]
  by blast

text \<open>Operations for examples: exact arithmetic on finite values, a window of ones, a
  transform that returns silence.\<close>

fun exact_fmul :: "float32 \<Rightarrow> float32 \<Rightarrow> float32" where
  "exact_fmul (Finite a) (Finite b) = Finite (a * b)"
| "exact_fmul _ _ = NaN"

fun exact_fadd :: "float32 \<Rightarrow> float32 \<Rightarrow> float32" where
  "exact_fadd (Finite a) (Finite b) = Finite (a + b)"
| "exact_fadd _ _ = NaN"

definition demo_dsp_ops :: dsp_ops where
  "demo_dsp_ops =
     \<lparr>hann_coeff = (\<lambda>len i. Finite 1), c2r_sample = (\<lambda>n spectrum i. Finite 0),
      ifft_scale = (\<lambda>n. Finite (1 / of_int n)), fmul = exact_fmul, fadd = exact_fadd,
      fquot = exact_fdiv\<rparr>"

definition silence :: "nat \<Rightarrow> float32 list" where
  "silence n = replicate n (Finite 0)"

lemma istft_two_frames:
  "istft demo_dsp_ops (silence 6) (silence 6) 2 3
     \<lparr>n_fft = 4, hop_length = 2, win_length = 4\<rparr> = Inr (silence 6)"
  by code_simp

lemma istft_negative_hop:
  "istft demo_dsp_ops (silence 3) (silence 3) 1 3
     \<lparr>n_fft = 4, hop_length = - 8, win_length = 4\<rparr> = Inr (silence 4)"
  by code_simp

theorem istft_length_witness:
  "(1::int) \<le> 2 \<and> (2::int) < 2147483648 \<and> (4::int) < 2147483648 \<and>
   - 2147483648 \<le> (2::int) \<and> (2::int) < 2147483648 \<and>
   istft demo_dsp_ops (silence 6) (silence 6) 2 3
     \<lparr>n_fft = 4, hop_length = 2, win_length = 4\<rparr> = Inr (silence 6) \<and>
   int (length (silence 6)) = 4 + (2 - 1) * 2 \<and>
   (1::int) \<le> 1 \<and> - 2147483648 \<le> (- 8::int) \<and>
   istft demo_dsp_ops (silence 3) (silence 3) 1 3
     \<lparr>n_fft = 4, hop_length = - 8, win_length = 4\<rparr> = Inr (silence 4) \<and>
   int (length (silence 4)) = 4 + (1 - 1) * (- 8)"
proof -
  let ?c = "\<lparr>n_fft = 4, hop_length = 2, win_length = 4\<rparr>"
  let ?d = "\<lparr>n_fft = 4, hop_length = - 8, win_length = 4\<rparr>"
  have "int (length (silence 6)) = n_fft ?c + (2 - 1) * hop_length ?c"
    using istft_length[of 2 ?c demo_dsp_ops "silence 6" "silence 6" 3 "silence 6"]
      istft_two_frames by simp
  moreover have "int (length (silence 4)) = n_fft ?d + (1 - 1) * hop_length ?d"
    using istft_length[of 1 ?d demo_dsp_ops "silence 3" "silence 3" 3 "silence 4"]
      istft_negative_hop by simp
  ultimately show ?thesis using istft_two_frames istft_negative_hop by simp
qed

text \<open>
  \<open>istft\<close> does not check its configuration. With two frames and a negative hop,
  \<open>audio_length\<close> is negative and the allocation throws; a window shorter than \<open>n_fft\<close> is
  read beyond its end by the overlap-add loop. No buffer is returned in either case.
\<close>

lemma istft_unchecked_configuration:
  "istft demo_dsp_ops (silence 6) (silence 6) 2 3
     \<lparr>n_fft = 4, hop_length = - 8, win_length = 4\<rparr> = Inl LengthError \<and>
   istft demo_dsp_ops (silence 6) (silence 6) 1 3
     \<lparr>n_fft = 4, hop_length = 2, win_length = 2\<rparr> = Inl OutOfBounds"
  by code_simp

end
